theory Spec2Isabelle
  imports Complex_Main "HOL-Library.AList"
begin

section \<open>Conventions of the embedding\<close>

text \<open>
  The development embeds the parts of \<^verbatim>\<open>srlife/receiver.py\<close> and of
  \<^verbatim>\<open>test/test_ceramic_damage_CARES_cyclic.py\<close> that the properties below are about.

  \<^item> A Python \<^verbatim>\<open>float\<close> and a numpy \<^verbatim>\<open>float64\<close> are modelled as a HOL \<open>real\<close>:
    rounding, overflow, infinities and NaN are outside the model. Every statement about
    a computed number is a statement about exact real arithmetic.
  \<^item> A Python \<^verbatim>\<open>int\<close> is an \<open>int\<close>; a length or an array dimension is a \<open>nat\<close>.
  \<^item> An exception is a value of type \<open>error\<close>; a function that can raise returns
    \<open>error + 'a\<close>, with \<open>Inl\<close> for the exception.
  \<^item> A method that mutates its object returns the outcome of the call together with
    the object as it is after the call, also when the call raised.
\<close>

datatype error =
    ValueError
  | IndexError
  | UnboundLocalError
  | UnsupportedEvaluation

text \<open>
  Python's \<^verbatim>\<open>UnboundLocalError\<close> is a subclass of \<^verbatim>\<open>NameError\<close>: a handler for
  \<^verbatim>\<open>NameError\<close> catches it.
\<close>

fun isinstance_NameError :: "error \<Rightarrow> bool" where
  "isinstance_NameError UnboundLocalError = True"
| "isinstance_NameError _ = False"

section \<open>numpy values\<close>

text \<open>
  An \<^verbatim>\<open>ndarray\<close> is its shape and its entries in row-major (C) order. A 0-dimensional
  array has shape \<open>[]\<close> and one entry.
\<close>

datatype ndarray = NdArray (shape: "nat list") (entries: "real list")

text \<open>
  What a function of numpy code can be handed where a number or an array is expected:
  a scalar (\<^verbatim>\<open>np.isscalar\<close> holds) or an array.
\<close>

datatype npval = Scalar real | Arr ndarray

fun isscalar :: "npval \<Rightarrow> bool" where
  "isscalar (Scalar _) = True"
| "isscalar (Arr _) = False"

section \<open>Aggregation of log-reliabilities\<close>

text \<open>
  \<^verbatim>\<open>TestPIAModel.test_definition\<close> aggregates the per-element log-reliabilities as
  \<^verbatim>\<open>R = np.exp(np.sum(actual))\<close> and \<^verbatim>\<open>Pf = 1 - R\<close>.
\<close>

definition aggregate :: "real list \<Rightarrow> real \<times> real" where
  "aggregate log_reliability =
     (let R_total = exp (sum_list log_reliability);
          Pf = 1 - R_total
      in (R_total, Pf))"

section \<open>The tube: stored times and result fields\<close>

text \<open>
  The fields of \<^verbatim>\<open>Tube\<close> that its geometry and result-storage methods read or write.
  \<^verbatim>\<open>self.r\<close>, \<^verbatim>\<open>self.t\<close>, \<^verbatim>\<open>self.h\<close> and \<^verbatim>\<open>self.times\<close> are the fields \<open>tube_r\<close>,
  \<open>tube_t\<close>, \<open>tube_h\<close> and \<open>tube_times\<close>. A results dictionary keeps its insertion
  order, so it is an association list; \<^verbatim>\<open>d[k] = v\<close> is \<open>AList.update k v d\<close>, which
  replaces the value of a key that is present and appends a new key at the end.
  \<^verbatim>\<open>plane\<close> and \<^verbatim>\<open>angle\<close> do not exist before \<^verbatim>\<open>make_2D\<close> or \<^verbatim>\<open>make_1D\<close> sets them.
  The boundary-condition fields are left out: no method below touches them.
\<close>

record Tube =
  tube_r :: real
  tube_t :: real
  tube_h :: real
  nr :: int
  nt :: int
  nz :: int
  abstraction :: string
  tube_times :: "real list"
  results :: "(string \<times> ndarray) list"
  quadrature_results :: "(string \<times> ndarray) list"
  axial_results :: "(string \<times> ndarray) list"
  T0 :: real
  page :: bool
  page_prefix :: string
  multiplier_val :: int
  plane :: "real option"
  angle :: "real option"

text \<open>\<^verbatim>\<open>Tube.__init__\<close>; the defaults are \<open>T0 = 0\<close>, \<open>page = False\<close>, \<open>multiplier = 1\<close>.\<close>

definition Tube_init ::
  "real \<Rightarrow> real \<Rightarrow> real \<Rightarrow> int \<Rightarrow> int \<Rightarrow> int \<Rightarrow> real \<Rightarrow> bool \<Rightarrow> int \<Rightarrow> Tube" where
  "Tube_init outer_radius thickness height' nr' nt' nz' T0' page' multiplier =
     \<lparr>tube_r = outer_radius, tube_t = thickness, tube_h = height',
      nr = nr', nt = nt', nz = nz',
      abstraction = ''3D'',
      tube_times = [], results = [], quadrature_results = [], axial_results = [],
      T0 = T0', page = page', page_prefix = [],
      multiplier_val = multiplier, plane = None, angle = None\<rparr>"

text \<open>\<^verbatim>\<open>Tube.make_2D\<close> and \<^verbatim>\<open>Tube.make_1D\<close>.\<close>

definition make_2D :: "real \<Rightarrow> Tube \<Rightarrow> (error + unit) \<times> Tube" where
  "make_2D height' T =
     (if height' < 0 \<or> height' > tube_h T then (Inl ValueError, T)
      else (Inr (), T\<lparr>abstraction := ''2D'', plane := Some height'\<rparr>))"

definition make_1D :: "real \<Rightarrow> real \<Rightarrow> Tube \<Rightarrow> (error + unit) \<times> Tube" where
  "make_1D height' angle' T =
     (if height' < 0 \<or> height' > tube_h T then (Inl ValueError, T)
      else (Inr (), T\<lparr>abstraction := ''1D'', plane := Some height', angle := Some angle'\<rparr>))"

text \<open>The property \<^verbatim>\<open>Tube.ndim\<close>.\<close>

definition ndim :: "Tube \<Rightarrow> error + nat" where
  "ndim T =
     (if abstraction T = ''3D'' then Inr 3
      else if abstraction T = ''2D'' then Inr 2
      else if abstraction T = ''1D'' then Inr 1
      else Inl ValueError)"

text \<open>The property \<^verbatim>\<open>Tube.ntime\<close>: \<^verbatim>\<open>len(self.times)\<close>.\<close>

definition ntime :: "Tube \<Rightarrow> nat" where
  "ntime T = length (tube_times T)"

text \<open>\<^verbatim>\<open>np.zeros(shape)\<close> for a shape of natural numbers.\<close>

definition np_zeros :: "nat list \<Rightarrow> ndarray" where
  "np_zeros shp = NdArray shp (replicate (prod_list shp) 0)"

text \<open>
  \<^verbatim>\<open>Tube._setup_memmap\<close>. With paging the array is a fresh \<^verbatim>\<open>np.memmap\<close> opened with mode
  \<^verbatim>\<open>w+\<close>: an array of zeros of the given shape whose storage is a file. The file system
  is outside the model, so both branches give the array of zeros.
\<close>

definition setup_memmap :: "Tube \<Rightarrow> string \<Rightarrow> nat list \<Rightarrow> ndarray" where
  "setup_memmap T name shp = (if page T then np_zeros shp else np_zeros shp)"

text \<open>
  \<^verbatim>\<open>dst[:] = src[:]\<close> for a destination allocated with the shape of the source, the only
  use in the methods below: the entries of the source are copied into the destination.
\<close>

definition slice_assign :: "ndarray \<Rightarrow> ndarray \<Rightarrow> ndarray" where
  "slice_assign dst src = NdArray (shape dst) (entries src)"

text \<open>\<^verbatim>\<open>Tube._check_rdim\<close>. The shape tuple is compared with a tuple of Python integers.\<close>

definition check_rdim :: "Tube \<Rightarrow> nat list \<Rightarrow> error + unit" where
  "check_rdim T shp =
     (if abstraction T = ''3D'' then
        (if map int shp \<noteq> [int (ntime T), nr T, nt T, nz T] then Inl ValueError else Inr ())
      else if abstraction T = ''2D'' then
        (if map int shp \<noteq> [int (ntime T), nr T, nt T] then Inl ValueError else Inr ())
      else if abstraction T = ''1D'' then
        (if map int shp \<noteq> [int (ntime T), nr T] then Inl ValueError else Inr ())
      else Inl ValueError)"

text \<open>\<^verbatim>\<open>Tube.add_results\<close>.\<close>

definition add_results :: "string \<Rightarrow> ndarray \<Rightarrow> Tube \<Rightarrow> (error + unit) \<times> Tube" where
  "add_results name d T =
     (case check_rdim T (shape d) of
        Inl e \<Rightarrow> (Inl e, T)
      | Inr _ \<Rightarrow>
          (let blank = setup_memmap T (name @ ''_node'') (shape d)
           in (Inr (), T\<lparr>results := AList.update name (slice_assign blank d) (results T)\<rparr>)))"

text \<open>
  \<^verbatim>\<open>Tube.add_quadrature_results\<close>. \<^verbatim>\<open>data.shape[0]\<close> raises \<^verbatim>\<open>IndexError\<close> on a
  0-dimensional array.
\<close>

definition add_quadrature_results :: "string \<Rightarrow> ndarray \<Rightarrow> Tube \<Rightarrow> (error + unit) \<times> Tube" where
  "add_quadrature_results name d T =
     (case shape d of
        [] \<Rightarrow> (Inl IndexError, T)
      | d0 # _ \<Rightarrow>
          if d0 \<noteq> ntime T then (Inl ValueError, T)
          else
            (let blank = setup_memmap T (name @ ''_quad'') (shape d)
             in (Inr (), T\<lparr>quadrature_results :=
                   AList.update name (slice_assign blank d) (quadrature_results T)\<rparr>)))"

text \<open>\<^verbatim>\<open>Tube.add_axial_results\<close>.\<close>

definition add_axial_results :: "string \<Rightarrow> ndarray \<Rightarrow> Tube \<Rightarrow> (error + unit) \<times> Tube" where
  "add_axial_results name d T =
     (if map int (shape d) \<noteq> [int (ntime T), nz T] then (Inl ValueError, T)
      else
        (let blank = setup_memmap T (name @ '' _axial'') (shape d)
         in (Inr (), T\<lparr>axial_results :=
               AList.update name (slice_assign blank d) (axial_results T)\<rparr>)))"

text \<open>
  The loop of \<^verbatim>\<open>Tube.set_times\<close> over \<^verbatim>\<open>self.results.items()\<close>, in dictionary order.
  \<^verbatim>\<open>res.shape[0]\<close> raises \<^verbatim>\<open>IndexError\<close> on a 0-dimensional array.
\<close>

fun set_times_check :: "(string \<times> ndarray) list \<Rightarrow> nat \<Rightarrow> error + unit" where
  "set_times_check [] n = Inr ()"
| "set_times_check ((name, res) # rest) n =
     (case shape res of
        [] \<Rightarrow> Inl IndexError
      | d0 # _ \<Rightarrow> if d0 \<noteq> n then Inl ValueError else set_times_check rest n)"

text \<open>\<^verbatim>\<open>Tube.set_times\<close>: the loop, then the assignment \<^verbatim>\<open>self.times = times\<close>.\<close>

definition set_times :: "real list \<Rightarrow> Tube \<Rightarrow> (error + unit) \<times> Tube" where
  "set_times times' T =
     (case set_times_check (results T) (length times') of
        Inl e \<Rightarrow> (Inl e, T)
      | Inr _ \<Rightarrow> (Inr (), T\<lparr>tube_times := times'\<rparr>))"

text \<open>
  A use of the public interface after construction: a sequence of calls of
  \<^verbatim>\<open>set_times\<close>, \<^verbatim>\<open>add_results\<close>, \<^verbatim>\<open>add_quadrature_results\<close> and \<^verbatim>\<open>add_axial_results\<close>.
  \<open>run\<close> gives the tube after the sequence when every call of it succeeded, and \<open>None\<close>
  when one of them raised.
\<close>

datatype call =
    SetTimes "real list"
  | AddResults string ndarray
  | AddQuadratureResults string ndarray
  | AddAxialResults string ndarray

fun perform :: "call \<Rightarrow> Tube \<Rightarrow> (error + unit) \<times> Tube" where
  "perform (SetTimes ts) T = set_times ts T"
| "perform (AddResults name d) T = add_results name d T"
| "perform (AddQuadratureResults name d) T = add_quadrature_results name d T"
| "perform (AddAxialResults name d) T = add_axial_results name d T"

fun run :: "call list \<Rightarrow> Tube \<Rightarrow> Tube option" where
  "run [] T = Some T"
| "run (c # cs) T =
     (case perform c T of
        (Inl e, _) \<Rightarrow> None
      | (Inr _, T') \<Rightarrow> run cs T')"

text \<open>The times handed to a call: those of \<^verbatim>\<open>set_times\<close>; the other calls take none.\<close>

fun given_times :: "call \<Rightarrow> real list" where
  "given_times (SetTimes ts) = ts"
| "given_times _ = []"

text \<open>A strictly increasing sequence of time samples.\<close>

definition strictly_increasing :: "real list \<Rightarrow> bool" where
  "strictly_increasing ts = sorted_wrt (<) ts"

text \<open>Every stored result field has at least one dimension, so that it has a leading one.\<close>

definition results_have_time_axis :: "Tube \<Rightarrow> bool" where
  "results_have_time_axis T = list_all (\<lambda>(name, res). shape res \<noteq> []) (results T)"

section \<open>numpy operations on one-dimensional arrays\<close>

text \<open>
  \<^verbatim>\<open>np.linspace(start, stop, num)\<close> with the end point included: \<open>num\<close> evenly spaced
  samples \<open>start + i * step\<close> with \<open>step = (stop - start) / (num - 1)\<close>; the single sample
  of \<open>num = 1\<close> is \<open>start\<close>. A negative \<open>num\<close> raises \<^verbatim>\<open>ValueError\<close>: the methods
  below test for it before they take the samples.
\<close>

definition linspace :: "real \<Rightarrow> real \<Rightarrow> nat \<Rightarrow> real list" where
  "linspace start stop num =
     (if num = 1 then [start]
      else map (\<lambda>i. start + real i * ((stop - start) / real (num - 1))) [0..<num])"

text \<open>\<^verbatim>\<open>np.diff(a)\<close> of a one-dimensional array: \<^verbatim>\<open>a[1:] - a[:-1]\<close>.\<close>

definition np_diff :: "real list \<Rightarrow> real list" where
  "np_diff a = map2 (-) (tl a) (butlast a)"

text \<open>
  \<^verbatim>\<open>np.outer(a, b)\<close>, as a list of rows: of numbers, and of booleans (whose product
  is the conjunction).
\<close>

definition np_outer :: "real list \<Rightarrow> real list \<Rightarrow> real list list" where
  "np_outer a b = map (\<lambda>x. map (\<lambda>y. x * y) b) a"

definition np_outer_bool :: "bool list \<Rightarrow> bool list \<Rightarrow> bool list list" where
  "np_outer_bool a b = map (\<lambda>x. map (\<lambda>y. x \<and> y) b) a"

text \<open>
  \<^verbatim>\<open>np.concatenate\<close> along the first axis: a 0-dimensional operand (a numpy scalar or a
  0-dimensional array) raises \<^verbatim>\<open>ValueError\<close> (\<^emph>\<open>zero-dimensional arrays cannot be
  concatenated\<close>), as do an empty sequence of operands and operands whose shapes differ
  after the first axis.
\<close>

fun zero_dimensional :: "npval \<Rightarrow> bool" where
  "zero_dimensional (Scalar _) = True"
| "zero_dimensional (Arr a) = (shape a = [])"

fun as_array :: "npval \<Rightarrow> ndarray" where
  "as_array (Scalar x) = NdArray [] [x]"
| "as_array (Arr a) = a"

definition np_concatenate :: "npval list \<Rightarrow> error + ndarray" where
  "np_concatenate vs =
     (if vs = [] then Inl ValueError
      else if list_ex zero_dimensional vs then Inl ValueError
      else
        (let arrs = map as_array vs;
             rest = tl (shape (hd arrs))
         in if list_ex (\<lambda>a. tl (shape a) \<noteq> rest) arrs then Inl ValueError
            else Inr (NdArray (sum_list (map (\<lambda>a. hd (shape a)) arrs) # rest)
                        (concat (map entries arrs)))))"

section \<open>The tube: surface elements and their normals\<close>

text \<open>
  The radial mask of \<^verbatim>\<open>Tube.surface_elements\<close>: \<^verbatim>\<open>np.zeros((n,), dtype=bool)\<close> with its
  first and its last entry set to \<^verbatim>\<open>True\<close>.
\<close>

definition radial_mask :: "nat \<Rightarrow> bool list" where
  "radial_mask n = (replicate n False)[0 := True, n - 1 := True]"

text \<open>
  The rows \<^verbatim>\<open>ns = np.vstack([np.cos(t), np.sin(t), np.zeros_like(t)]).T\<close> for
  \<^verbatim>\<open>t = np.linspace(0, 2 * np.pi, nt)\<close>.
\<close>

definition radial_normals :: "nat \<Rightarrow> real list list" where
  "radial_normals m = map (\<lambda>a. [cos a, sin a, 0]) (linspace 0 (2 * pi) m)"

text \<open>
  \<^verbatim>\<open>Tube.surface_elements\<close>, one definition for each branch. The result is the flattened
  mask and the rows of the \<open>(N, 3)\<close> array of normals. \<^verbatim>\<open>np.zeros\<close> and \<^verbatim>\<open>np.ones\<close> raise
  \<^verbatim>\<open>ValueError\<close> on a negative dimension, and \<^verbatim>\<open>r[0] = True\<close> raises \<^verbatim>\<open>IndexError\<close> on an
  empty array. In the 3D branch \<^verbatim>\<open>-ns[:, None]\<close> has shape \<open>(nt, 1, 3)\<close> and is broadcast
  over the axial index.
\<close>

definition surface_elements_1d :: "Tube \<Rightarrow> error + bool list \<times> real list list" where
  "surface_elements_1d T =
     (if nr T - 1 < 0 then Inl ValueError
      else if nr T - 1 = 0 then Inl IndexError
      else
        (let n = nat (nr T - 1);
             surface = radial_mask n;
             nvec = [1, 0, 0];
             normals = (replicate n [0, 0, 0])[0 := map uminus nvec, n - 1 := nvec]
         in Inr (surface, normals)))"

definition surface_elements_2d :: "Tube \<Rightarrow> error + bool list \<times> real list list" where
  "surface_elements_2d T =
     (if nr T - 1 < 0 then Inl ValueError
      else if nr T - 1 = 0 then Inl IndexError
      else if nt T < 0 then Inl ValueError
      else
        (let n = nat (nr T - 1);
             m = nat (nt T);
             r = radial_mask n;
             theta = replicate m True;
             surface = concat (np_outer_bool r theta);
             ns = radial_normals m;
             normals = (replicate n (replicate m [0, 0, 0]))
                         [0 := map (map uminus) ns, n - 1 := ns]
         in Inr (surface, concat normals)))"

definition surface_elements_3d :: "Tube \<Rightarrow> error + bool list \<times> real list list" where
  "surface_elements_3d T =
     (if nr T - 1 < 0 then Inl ValueError
      else if nr T - 1 = 0 then Inl IndexError
      else if nt T < 0 then Inl ValueError
      else if nz T - 1 < 0 then Inl ValueError
      else
        (let n = nat (nr T - 1);
             m = nat (nt T);
             k = nat (nz T - 1);
             r = radial_mask n;
             theta = replicate m True;
             z = replicate k True;
             surface = concat (np_outer_bool (concat (np_outer_bool r theta)) z);
             ns = radial_normals m;
             normals = (replicate n (replicate m (replicate k [0, 0, 0])))
                         [0 := map (\<lambda>v. replicate k (map uminus v)) ns,
                          n - 1 := map (\<lambda>v. replicate k v) ns]
         in Inr (surface, concat (map concat normals))))"

definition surface_elements :: "Tube \<Rightarrow> error + bool list \<times> real list list" where
  "surface_elements T =
     (case ndim T of
        Inl e \<Rightarrow> Inl e
      | Inr d \<Rightarrow>
          if d = 1 then surface_elements_1d T
          else if d = 2 then surface_elements_2d T
          else if d = 3 then surface_elements_3d T
          else Inl ValueError)"

text \<open>The Euclidean length of a row of the array of normals.\<close>

definition euclidean_length :: "real list \<Rightarrow> real" where
  "euclidean_length v = sqrt (sum_list (map (\<lambda>x. x\<^sup>2) v))"

text \<open>
  What is expected of the normal stored for an element, given its entry in the surface
  mask: unit length for a surface element, the zero vector for a solid one.
\<close>

definition normal_fits :: "bool \<Rightarrow> real list \<Rightarrow> bool" where
  "normal_fits s v = (if s then euclidean_length v = 1 else v = [0, 0, 0])"

section \<open>The tube: element surface areas\<close>

text \<open>
  \<^verbatim>\<open>Tube._surfacearea1d\<close>. \<^verbatim>\<open>surface_area\<close> is one-dimensional, so \<^verbatim>\<open>surface_area[0]\<close> and
  \<^verbatim>\<open>surface_area[-1]\<close> are numpy scalars, and it is these two scalars that are handed to
  \<^verbatim>\<open>np.concatenate\<close>.
\<close>

definition surfacearea1d :: "Tube \<Rightarrow> error + real list" where
  "surfacearea1d T =
     (if nr T < 0 then Inl ValueError
      else if nr T - 1 < 0 then Inl ValueError
      else if nr T - 1 = 0 then Inl IndexError
      else
        (let r = linspace (tube_r T - tube_t T) (tube_r T) (nat (nr T));
             n = nat (nr T - 1);
             surface_area = (replicate n 0)
                              [0 := 2 * pi * hd r * tube_h T,
                               n - 1 := 2 * pi * last r * tube_h T]
         in case np_concatenate [Scalar (hd surface_area), Scalar (last surface_area)] of
              Inl e \<Rightarrow> Inl e
            | Inr a \<Rightarrow> Inr (entries a)))"

text \<open>
  \<^verbatim>\<open>Tube._surfacearea2d\<close>: the rows \<^verbatim>\<open>surface_area[0, :]\<close> and \<^verbatim>\<open>surface_area[-1, :]\<close> are
  one-dimensional arrays of length \<open>nt\<close>.
\<close>

definition surfacearea2d :: "Tube \<Rightarrow> error + real list" where
  "surfacearea2d T =
     (if nt T + 1 < 0 then Inl ValueError
      else if nr T < 0 then Inl ValueError
      else if nr T - 1 < 0 \<or> nt T < 0 then Inl ValueError
      else if nr T - 1 = 0 then Inl IndexError
      else
        (let t = linspace 0 (2 * pi) (nat (nt T + 1));
             r = linspace (tube_r T - tube_t T) (tube_r T) (nat (nr T));
             theta = np_diff t;
             n = nat (nr T - 1);
             m = nat (nt T);
             surface_area = (replicate n (replicate m 0))
                              [0 := map (\<lambda>th. th * hd r * tube_h T) theta,
                               n - 1 := map (\<lambda>th. th * last r * tube_h T) theta]
         in case np_concatenate [Arr (NdArray [m] (hd surface_area)),
                                 Arr (NdArray [m] (last surface_area))] of
              Inl e \<Rightarrow> Inl e
            | Inr a \<Rightarrow> Inr (entries a)))"

text \<open>
  \<^verbatim>\<open>Tube._surfacearea3d\<close>: \<^verbatim>\<open>surface_area[0, :, :]\<close> and \<^verbatim>\<open>surface_area[-1, :, :]\<close> are
  arrays of shape \<open>(nz - 1, nt)\<close>, with the entry \<^verbatim>\<open>heights[k] * theta[j] * r\<close> at \<open>(k, j)\<close>.
\<close>

definition surfacearea3d :: "Tube \<Rightarrow> error + real list" where
  "surfacearea3d T =
     (if nt T + 1 < 0 then Inl ValueError
      else if nr T < 0 then Inl ValueError
      else if nz T < 0 then Inl ValueError
      else if nr T - 1 < 0 \<or> nz T - 1 < 0 \<or> nt T < 0 then Inl ValueError
      else if nr T - 1 = 0 then Inl IndexError
      else
        (let t = linspace 0 (2 * pi) (nat (nt T + 1));
             r = linspace (tube_r T - tube_t T) (tube_r T) (nat (nr T));
             z = linspace 0 (tube_h T) (nat (nz T));
             theta = np_diff t;
             heights = np_diff z;
             n = nat (nr T - 1);
             k = nat (nz T - 1);
             m = nat (nt T);
             surface_area = (replicate n (replicate k (replicate m 0)))
                              [0 := map (\<lambda>hk. map (\<lambda>th. hk * th * hd r) theta) heights,
                               n - 1 := map (\<lambda>hk. map (\<lambda>th. hk * th * last r) theta) heights]
         in case np_concatenate [Arr (NdArray [k, m] (concat (hd surface_area))),
                                 Arr (NdArray [k, m] (concat (last surface_area)))] of
              Inl e \<Rightarrow> Inl e
            | Inr a \<Rightarrow> Inr (entries a)))"

definition element_surface_areas :: "Tube \<Rightarrow> error + real list" where
  "element_surface_areas T =
     (case ndim T of
        Inl e \<Rightarrow> Inl e
      | Inr d \<Rightarrow>
          if d = 1 then surfacearea1d T
          else if d = 2 then surfacearea2d T
          else if d = 3 then surfacearea3d T
          else Inl ValueError)"

section \<open>The tube: element volumes\<close>

text \<open>\<^verbatim>\<open>Tube._volume1d\<close>: \<^verbatim>\<open>np.pi * (r[1:] ** 2.0 - r[:-1] ** 2.0) * self.h\<close>.\<close>

definition volume1d :: "Tube \<Rightarrow> error + real list" where
  "volume1d T =
     (if nr T < 0 then Inl ValueError
      else
        (let r = linspace (tube_r T - tube_t T) (tube_r T) (nat (nr T))
         in Inr (map2 (\<lambda>r1 r0. pi * (r1\<^sup>2 - r0\<^sup>2) * tube_h T) (tl r) (butlast r))))"

text \<open>
  The part that \<^verbatim>\<open>Tube._volume2d\<close> and \<^verbatim>\<open>Tube._volume3d\<close> share. \<open>volume_sqrt_arg\<close> is
  the array \<^verbatim>\<open>edge[:, None] ** 2.0 - ((b - a) / 2) ** 2.0\<close> handed to \<^verbatim>\<open>np.sqrt\<close>, and
  \<open>volume_base\<close> is \<^verbatim>\<open>base = 0.5 * (a + b) * h\<close>, both as lists of rows (one row for each
  radial element). \<^verbatim>\<open>np.sqrt\<close> of a negative number is NaN, which the reals do not have:
  the square root here is numpy's only where its argument is not negative.
\<close>

definition volume_a :: "real list \<Rightarrow> real list \<Rightarrow> real list list" where
  "volume_a r theta = np_outer (map (\<lambda>x. 2 * x) (butlast r)) (map (\<lambda>th. sin (th / 2)) theta)"

definition volume_b :: "real list \<Rightarrow> real list \<Rightarrow> real list list" where
  "volume_b r theta = np_outer (map (\<lambda>x. 2 * x) (tl r)) (map (\<lambda>th. sin (th / 2)) theta)"

definition volume_edge :: "real list \<Rightarrow> real list" where
  "volume_edge r = map2 (-) (tl r) (butlast r)"

definition volume_sqrt_arg :: "real list \<Rightarrow> real list \<Rightarrow> real list list" where
  "volume_sqrt_arg r theta =
     map2 (\<lambda>e row. map (\<lambda>d. e\<^sup>2 - (d / 2)\<^sup>2) row) (volume_edge r)
       (map2 (map2 (-)) (volume_b r theta) (volume_a r theta))"

definition volume_base :: "real list \<Rightarrow> real list \<Rightarrow> real list list" where
  "volume_base r theta =
     (let h = map (map sqrt) (volume_sqrt_arg r theta)
      in map2 (map2 (\<lambda>s hh. 0.5 * s * hh))
           (map2 (map2 (+)) (volume_a r theta) (volume_b r theta)) h)"

definition volume2d :: "Tube \<Rightarrow> error + real list" where
  "volume2d T =
     (if nr T < 0 then Inl ValueError
      else if nt T + 1 < 0 then Inl ValueError
      else
        (let r = linspace (tube_r T - tube_t T) (tube_r T) (nat (nr T));
             t = linspace 0 (2 * pi) (nat (nt T + 1));
             theta = np_diff t;
             base = volume_base r theta
         in Inr (concat (map (map (\<lambda>x. x * tube_h T)) base))))"

text \<open>
  \<^verbatim>\<open>Tube._volume3d\<close>. \<^verbatim>\<open>np.einsum("k,ij", heights, base)\<close> has no explicit output, so its
  axes are the labels in alphabetical order: the entry at \<open>(i, j, k)\<close> is
  \<^verbatim>\<open>base[i, j] * heights[k]\<close>.
\<close>

definition volume3d :: "Tube \<Rightarrow> error + real list" where
  "volume3d T =
     (if nr T < 0 then Inl ValueError
      else if nt T + 1 < 0 then Inl ValueError
      else if nz T < 0 then Inl ValueError
      else
        (let r = linspace (tube_r T - tube_t T) (tube_r T) (nat (nr T));
             t = linspace 0 (2 * pi) (nat (nt T + 1));
             z = linspace 0 (tube_h T) (nat (nz T));
             theta = np_diff t;
             base = volume_base r theta;
             heights = np_diff z
         in Inr (concat (map (\<lambda>row. concat (map (\<lambda>x. map (\<lambda>hk. hk * x) heights) row)) base))))"

definition element_volumes :: "Tube \<Rightarrow> error + real list" where
  "element_volumes T =
     (case ndim T of
        Inl e \<Rightarrow> Inl e
      | Inr d \<Rightarrow>
          if d = 1 then volume1d T
          else if d = 2 then volume2d T
          else if d = 3 then volume3d T
          else Inl ValueError)"

text \<open>
  The arguments of \<^verbatim>\<open>np.sqrt\<close> in the 2D and 3D volume formulas of a tube, flattened;
  the 1D formula takes no square root.
\<close>

definition element_volume_sqrt_args :: "Tube \<Rightarrow> real list" where
  "element_volume_sqrt_args T =
     (if abstraction T = ''2D'' \<or> abstraction T = ''3D'' then
        concat (volume_sqrt_arg
          (linspace (tube_r T - tube_t T) (tube_r T) (nat (nr T)))
          (np_diff (linspace 0 (2 * pi) (nat (nt T + 1)))))
      else [])"

section \<open>The film-coefficient convective boundary condition\<close>

text \<open>
  The argument \<^verbatim>\<open>nz\<close> of \<^verbatim>\<open>FilmCoefficientConvectiveBC.__init__\<close> is documented as an
  \<^verbatim>\<open>int\<close>. It is a Python \<^verbatim>\<open>int\<close> when the caller writes a literal, and a numpy integer
  (\<^verbatim>\<open>np.int64\<close>) when \<^verbatim>\<open>FilmCoefficientConvectiveBC.load\<close> passes \<^verbatim>\<open>fobj.attrs["nz"]\<close>, since
  h5py returns an integer attribute as a numpy integer. The two kinds compare
  differently with a tuple, so the model keeps them apart.
\<close>

datatype pyint = PyInt int | NpInt int

fun int_of :: "pyint \<Rightarrow> int" where
  "int_of (PyInt n) = n"
| "int_of (NpInt n) = n"

text \<open>
  What a comparison gives: a Python \<^verbatim>\<open>bool\<close>, or a one-dimensional numpy array of
  booleans.
\<close>

datatype truth = PyBool bool | NpBools "bool list"

text \<open>
  \<^verbatim>\<open>shape != (nz,)\<close>, a tuple against a tuple: they differ unless they have the same
  length and equal entries; a Python \<^verbatim>\<open>int\<close> and a numpy integer of the same value are
  equal.
\<close>

definition shape_ne_tuple :: "nat list \<Rightarrow> pyint list \<Rightarrow> bool" where
  "shape_ne_tuple shp ns = (map int shp \<noteq> map int_of ns)"

text \<open>
  \<^verbatim>\<open>shape != (nz)\<close>, a tuple against the integer itself. A tuple is never equal to a
  Python \<^verbatim>\<open>int\<close>, so the answer is \<^verbatim>\<open>True\<close>. Against a numpy integer the comparison is
  numpy's: the tuple is converted to an array and compared entry by entry, and the
  answer is an array of booleans with one entry for each dimension.
\<close>

fun shape_ne_int :: "nat list \<Rightarrow> pyint \<Rightarrow> truth" where
  "shape_ne_int shp (PyInt n) = PyBool True"
| "shape_ne_int shp (NpInt n) = NpBools (map (\<lambda>d. int d \<noteq> n) shp)"

text \<open>
  The truth value that an \<^verbatim>\<open>if\<close> takes of a comparison. An array of one entry has the
  truth value of its entry; for an array of several entries, and for an empty one,
  numpy raises \<^verbatim>\<open>ValueError\<close> (releases before 2.2 gave \<^verbatim>\<open>False\<close> for the empty
  array, with a deprecation warning).
\<close>

fun truth_value :: "truth \<Rightarrow> error + bool" where
  "truth_value (PyBool b) = Inr b"
| "truth_value (NpBools [b]) = Inr b"
| "truth_value (NpBools _) = Inl ValueError"

text \<open>
  The shape check of \<^verbatim>\<open>FilmCoefficientConvectiveBC.__init__\<close>:
  \<^verbatim>\<open>if fluid_T.shape != (nz,) or film.shape != (nz): raise ValueError(...)\<close>.
  The first comparison is against the one-element tuple, the second against the
  parenthesised \<^verbatim>\<open>nz\<close> itself. \<^verbatim>\<open>a or b\<close> is \<^verbatim>\<open>a\<close> when \<^verbatim>\<open>a\<close> is true and \<^verbatim>\<open>b\<close> otherwise.
\<close>

definition shape_check :: "pyint \<Rightarrow> ndarray \<Rightarrow> ndarray \<Rightarrow> error + unit" where
  "shape_check nz' fluid_T film =
     (if shape_ne_tuple (shape fluid_T) [nz'] then Inl ValueError
      else
        (case truth_value (shape_ne_int (shape film) nz') of
           Inl e \<Rightarrow> Inl e
         | Inr b \<Rightarrow> if b then Inl ValueError else Inr ()))"

record 'i FilmCoefficientConvectiveBC =
  bc_r :: real
  bc_h :: real
  bc_nz :: pyint
  bc_fluid_T :: ndarray
  bc_film :: ndarray
  ifn_fluid :: 'i
  ifn_film :: 'i

text \<open>
  \<^verbatim>\<open>FilmCoefficientConvectiveBC.__init__\<close>: the shape check, then
  \<^verbatim>\<open>zs = np.linspace(0, self.h, self.nz)\<close> and the two interpolants. The constructor
  \<^verbatim>\<open>scipy.interpolate.interp1d\<close> is the parameter \<open>interp1d\<close>: a function of the samples
  and the data that returns an interpolant or raises.
\<close>

definition FilmCoefficientConvectiveBC_init ::
  "(real list \<Rightarrow> ndarray \<Rightarrow> error + 'i) \<Rightarrow> real \<Rightarrow> real \<Rightarrow> pyint \<Rightarrow> ndarray \<Rightarrow> ndarray \<Rightarrow>
   error + 'i FilmCoefficientConvectiveBC" where
  "FilmCoefficientConvectiveBC_init interp1d radius height' nz' fluid_T film =
     (case shape_check nz' fluid_T film of
        Inl e \<Rightarrow> Inl e
      | Inr _ \<Rightarrow>
          if int_of nz' < 0 then Inl ValueError
          else
            (let zs = linspace 0 height' (nat (int_of nz'))
             in case interp1d zs fluid_T of
                  Inl e \<Rightarrow> Inl e
                | Inr f \<Rightarrow>
                    (case interp1d zs film of
                       Inl e \<Rightarrow> Inl e
                     | Inr g \<Rightarrow>
                         Inr \<lparr>bc_r = radius, bc_h = height', bc_nz = nz',
                              bc_fluid_T = fluid_T, bc_film = film,
                              ifn_fluid = f, ifn_film = g\<rparr>)))"

text \<open>
  What \<^verbatim>\<open>FilmCoefficientConvectiveBC.load\<close> reads from an HDF5 group: the attributes
  \<^verbatim>\<open>r\<close>, \<^verbatim>\<open>h\<close> and \<^verbatim>\<open>nz\<close> and the datasets \<^verbatim>\<open>fluid_T\<close> and \<^verbatim>\<open>film\<close>.
\<close>

record h5_group =
  attr_r :: real
  attr_h :: real
  attr_nz :: int
  dataset_fluid_T :: ndarray
  dataset_film :: ndarray

text \<open>
  \<^verbatim>\<open>FilmCoefficientConvectiveBC.load\<close>: the constructor at what the group holds. The
  attribute \<^verbatim>\<open>nz\<close> arrives as a numpy integer.
\<close>

definition FilmCoefficientConvectiveBC_load ::
  "(real list \<Rightarrow> ndarray \<Rightarrow> error + 'i) \<Rightarrow> h5_group \<Rightarrow> error + 'i FilmCoefficientConvectiveBC" where
  "FilmCoefficientConvectiveBC_load interp1d fobj =
     FilmCoefficientConvectiveBC_init interp1d (attr_r fobj) (attr_h fobj)
       (NpInt (attr_nz fobj)) (dataset_fluid_T fobj) (dataset_film fobj)"

text \<open>
  An interpolant constructor for the examples. It stands for
  \<^verbatim>\<open>scipy.interpolate.interp1d\<close> on the arguments that every release accepts,
  one-dimensional data with as many entries as there are samples and at least two
  samples, and raises otherwise. The interpolant is the pair of the samples and the data.
\<close>

definition sampled_interp1d :: "real list \<Rightarrow> ndarray \<Rightarrow> error + real list \<times> real list" where
  "sampled_interp1d x y =
     (if shape y = [length x] \<and> 2 \<le> length x then Inr (x, entries y) else Inl ValueError)"

text \<open>A stored boundary condition with three axial points.\<close>

definition example_group :: h5_group where
  "example_group =
     \<lparr>attr_r = 1, attr_h = 2, attr_nz = 3,
      dataset_fluid_T = NdArray [3] [300, 310, 320],
      dataset_film = NdArray [3] [5, 5, 5]\<rparr>"

section \<open>Interpolation at scalars and arrays\<close>

text \<open>
  The numpy operations that \<^verbatim>\<open>_make_ifn\<close> and \<^verbatim>\<open>_vector_interpolate\<close> use, on arrays of
  any number of dimensions. \<open>ndindex\<close> is \<^verbatim>\<open>np.ndindex\<close>: the indices of a shape in
  row-major order. \<open>ravel_index\<close> is the position of an index in the flat list of
  entries.
\<close>

fun ndindex :: "nat list \<Rightarrow> nat list list" where
  "ndindex [] = [[]]"
| "ndindex (n # ns) = concat (map (\<lambda>i. map ((#) i) (ndindex ns)) [0..<n])"

definition ravel_index :: "nat list \<Rightarrow> nat list \<Rightarrow> nat" where
  "ravel_index shp ind = foldl (\<lambda>acc (n, i). acc * n + i) 0 (zip shp ind)"

fun np_shape :: "npval \<Rightarrow> nat list" where
  "np_shape (Scalar _) = []"
| "np_shape (Arr a) = shape a"

text \<open>
  Broadcasting of two shapes, read from the last dimension: two dimensions agree when
  they are equal or one of them is 1; a missing dimension counts as 1.
\<close>

fun broadcast_rev :: "nat list \<Rightarrow> nat list \<Rightarrow> nat list option" where
  "broadcast_rev [] ys = Some ys"
| "broadcast_rev (x # xs) [] = Some (x # xs)"
| "broadcast_rev (x # xs) (y # ys) =
     (if x = y \<or> y = 1 then map_option ((#) x) (broadcast_rev xs ys)
      else if x = 1 then map_option ((#) y) (broadcast_rev xs ys)
      else None)"

definition broadcast_shapes :: "nat list \<Rightarrow> nat list \<Rightarrow> nat list option" where
  "broadcast_shapes s1 s2 = map_option rev (broadcast_rev (rev s1) (rev s2))"

text \<open>The entries of an array broadcast to a shape that its own shape broadcasts to.\<close>

definition broadcast_to :: "nat list \<Rightarrow> ndarray \<Rightarrow> real list" where
  "broadcast_to target a =
     map (\<lambda>ind. entries a !
            ravel_index (shape a)
              (map2 (\<lambda>n i. if n = 1 then 0 else i) (shape a)
                 (drop (length target - length (shape a)) ind)))
       (ndindex target)"

text \<open>
  \<^verbatim>\<open>np.ones(shape) * d\<close>: the array of \<open>d\<close> for a scalar \<open>d\<close>, the broadcast of \<open>d\<close> for an
  array, \<^verbatim>\<open>ValueError\<close> when the shapes do not broadcast. A 0-dimensional product is a
  numpy scalar.
\<close>

definition np_ones_times :: "nat list \<Rightarrow> npval \<Rightarrow> error + npval" where
  "np_ones_times shp d =
     (case d of
        Scalar x \<Rightarrow>
          Inr (if shp = [] then Scalar x else Arr (NdArray shp (replicate (prod_list shp) x)))
      | Arr a \<Rightarrow>
          (case broadcast_shapes shp (shape a) of
             None \<Rightarrow> Inl ValueError
           | Some s \<Rightarrow>
               Inr (if s = [] then Scalar (hd (entries a))
                    else Arr (NdArray s (broadcast_to s a)))))"

text \<open>
  \<^verbatim>\<open>d[ind]\<close> for a tuple of non-negative integers: \<^verbatim>\<open>IndexError\<close> for too many indices
  or an index out of range, an entry for a full index, a sub-array for a shorter one.
\<close>

definition np_getitem :: "npval \<Rightarrow> nat list \<Rightarrow> error + npval" where
  "np_getitem d ind =
     (case d of
        Scalar x \<Rightarrow> if ind = [] then Inr (Scalar x) else Inl IndexError
      | Arr a \<Rightarrow>
          if length ind > length (shape a) then Inl IndexError
          else if list_ex (\<lambda>(n, i). n \<le> i) (zip (shape a) ind) then Inl IndexError
          else if length ind = length (shape a)
            then Inr (Scalar (entries a ! ravel_index (shape a) ind))
          else
            (let sub = drop (length ind) (shape a);
                 sz = prod_list sub;
                 off = ravel_index (take (length ind) (shape a)) ind
             in Inr (Arr (NdArray sub (take sz (drop (off * sz) (entries a)))))))"

text \<open>
  The value stored by \<^verbatim>\<open>res[ind] = v\<close> into an array of floats: a scalar, or the entry of
  a 0-dimensional array (what the scipy grid interpolator returns at one point). An array
  of one or more dimensions raises \<^verbatim>\<open>ValueError\<close> (\<^emph>\<open>setting an array element with a
  sequence\<close>); earlier numpy releases converted such an array when it had one entry, with
  a deprecation warning from 1.25 on.
\<close>

fun as_element :: "npval \<Rightarrow> error + real" where
  "as_element (Scalar x) = Inr x"
| "as_element (Arr a) =
     (if shape a = [] then (case entries a of [x] \<Rightarrow> Inr x | _ \<Rightarrow> Inl ValueError)
      else Inl ValueError)"

text \<open>Evaluation in order: the first exception is the one raised.\<close>

fun in_order :: "(error + 'a) list \<Rightarrow> error + 'a list" where
  "in_order [] = Inr []"
| "in_order (x # xs) =
     (case x of
        Inl e \<Rightarrow> Inl e
      | Inr v \<Rightarrow> (case in_order xs of Inl e \<Rightarrow> Inl e | Inr vs \<Rightarrow> Inr (v # vs)))"

text \<open>
  \<^verbatim>\<open>_vector_interpolate\<close>: the body of its loop at one index, and the function. \<open>base\<close> is
  the interpolation method, a function of a list of coordinates that returns a value
  or raises.
\<close>

definition interpolate_at ::
  "(npval list \<Rightarrow> error + npval) \<Rightarrow> npval list \<Rightarrow> nat list \<Rightarrow> error + real" where
  "interpolate_at base data' ind =
     (case in_order (map (\<lambda>d. np_getitem d ind) data') of
        Inl e \<Rightarrow> Inl e
      | Inr point \<Rightarrow> (case base point of Inl e \<Rightarrow> Inl e | Inr v \<Rightarrow> as_element v))"

definition vector_interpolate ::
  "(npval list \<Rightarrow> error + npval) \<Rightarrow> npval list \<Rightarrow> error + npval" where
  "vector_interpolate base data' =
     (case data' of
        [] \<Rightarrow> Inl IndexError
      | d0 # _ \<Rightarrow>
          (let shp = np_shape d0
           in case in_order (map (interpolate_at base data') (ndindex shp)) of
                Inl e \<Rightarrow> Inl e
              | Inr res \<Rightarrow> Inr (Arr (NdArray shp res))))"

text \<open>
  \<^verbatim>\<open>_make_ifn(base)\<close> returns the closure \<^verbatim>\<open>ifn\<close>; \<open>make_ifn base\<close> is that closure.
  In its last branch the argument \<^verbatim>\<open>ndata\<close> of the call is a local variable that was
  never assigned, so evaluating it raises \<^verbatim>\<open>UnboundLocalError\<close> before
  \<^verbatim>\<open>_vector_interpolate\<close> is entered.
\<close>

definition make_ifn ::
  "(npval list \<Rightarrow> error + npval) \<Rightarrow> npval list \<Rightarrow> error + npval" where
  "make_ifn base mdata =
     (let allscalar = list_all isscalar mdata;
          anyscalar = list_ex isscalar mdata
      in if allscalar then base mdata
         else if anyscalar then
           (let shapes = map np_shape (filter (\<lambda>a. \<not> isscalar a) mdata)
            in case shapes of
                 [] \<Rightarrow> Inl IndexError
               | shp # _ \<Rightarrow>
                   (case in_order (map (np_ones_times shp) mdata) of
                      Inl e \<Rightarrow> Inl e
                    | Inr ndata \<Rightarrow> vector_interpolate base ndata))
         else Inl UnboundLocalError)"

text \<open>
  \<^verbatim>\<open>HeatFluxBC.flux\<close>: \<^verbatim>\<open>self.ifn([t, theta, z])\<close>, where \<^verbatim>\<open>self.ifn\<close> is \<^verbatim>\<open>_make_ifn\<close> of
  the scipy grid interpolator that \<^verbatim>\<open>_generate_ifn\<close> builds from the data of the boundary
  condition. The interpolator is the parameter \<open>base\<close>.
\<close>

definition HeatFluxBC_flux ::
  "(npval list \<Rightarrow> error + npval) \<Rightarrow> npval \<Rightarrow> npval \<Rightarrow> npval \<Rightarrow> error + npval" where
  "HeatFluxBC_flux base t theta z = make_ifn base [t, theta, z]"

text \<open>An interpolation method for the examples: it returns 0 at every point.\<close>

definition zero_base :: "npval list \<Rightarrow> error + npval" where
  "zero_base point = Inr (Scalar 0)"

section \<open>Damage models\<close>

text \<open>
  The arguments of the volume-flaw evaluation, as the spec lists them: the time samples,
  the stress (time by element by component), the temperature (time by element), the
  element volumes, the material and the target time.
\<close>

record 'm volume_flaw_arguments =
  arg_time :: "real list"
  arg_stress :: "real list list list"
  arg_temperature :: "real list list"
  arg_volumes :: "real list"
  arg_material :: 'm
  arg_target_time :: real

datatype damage_model =
    PIAModel
  | CSEModelGriffithFlaw
  | SMMModelGriffithFlaw
  | SMMModelSemiCircularCrack

text \<open>
  Modelled from the spec: the module \<^verbatim>\<open>srlife.damage\<close>, which defines
  \<^verbatim>\<open>calculate_volume_flaw_element_log_reliability\<close> for the four damage models, is not
  among the sources; only the test that uses it is. The spec says that the
  semicircular-crack SMM model supports surface evaluation only and that its volume-flaw
  evaluation raises \<^verbatim>\<open>UnsupportedEvaluation\<close>, and that the other three models support
  volume evaluation. Their risk kernels are the parameter \<open>volume_kernel\<close>.
\<close>

definition calculate_volume_flaw_element_log_reliability ::
  "(damage_model \<Rightarrow> 'm volume_flaw_arguments \<Rightarrow> real list) \<Rightarrow> damage_model \<Rightarrow>
   'm volume_flaw_arguments \<Rightarrow> error + real list" where
  "calculate_volume_flaw_element_log_reliability volume_kernel model args =
     (case model of
        SMMModelSemiCircularCrack \<Rightarrow> Inl UnsupportedEvaluation
      | _ \<Rightarrow> Inr (volume_kernel model args))"

section \<open>Example tubes\<close>

text \<open>
  A tube of outer radius 1, thickness 1/2 and height 1 on a 4 x 4 x 4 grid, as
  constructed; the same tube reduced to a ray and to a plane; the ray with one time
  sample; and the ray with one time sample and a temperature field stored.
\<close>

definition example_tube :: Tube where
  "example_tube = Tube_init 1 (1/2) 1 4 4 4 0 False 1"

definition example_tube_1D :: Tube where
  "example_tube_1D = snd (make_1D 0 0 example_tube)"

definition example_tube_2D :: Tube where
  "example_tube_2D = snd (make_2D 0 example_tube)"

definition example_tube_timed :: Tube where
  "example_tube_timed = snd (set_times [0] example_tube_1D)"

definition example_tube_loaded :: Tube where
  "example_tube_loaded =
     snd (add_results ''temperature'' (NdArray [1, 4] [300, 310, 320, 330]) example_tube_timed)"

section \<open>Properties\<close>

text \<open>
  C8. The aggregation step \<open>R_total = exp (\<Sum> log-reliabilities)\<close>, \<open>Pf = 1 - R_total\<close>
  applied to an array whose entries are all 0 gives \<open>R_total = 1\<close> and \<open>Pf = 0\<close>, whatever
  the length of the array.
\<close>

theorem aggregate_all_zero: "aggregate (replicate n 0) = (1, 0)"
proof -
  have "sum_list (replicate n (0::real)) = 0"
    by (induction n) simp_all
  then show ?thesis
    by (simp add: aggregate_def)
qed

subsection \<open>Constructing the film-coefficient boundary condition\<close>

text \<open>
  C9, as stated, fails: the constructor does not raise for every combination of
  arguments. With \<open>nz\<close> the numpy integer 3 and two arrays of shape \<open>(3,)\<close>, which is
  what \<^verbatim>\<open>load\<close> passes for a stored boundary condition with three axial points,
  \<^verbatim>\<open>film.shape != (nz)\<close> is the array \<^verbatim>\<open>[False]\<close>, the check passes and the object is
  constructed.
\<close>

theorem FilmCoefficientConvectiveBC_init_numpy_int_counterexample:
  "FilmCoefficientConvectiveBC_init sampled_interp1d 1 2 (NpInt 3)
     (NdArray [3] [300, 310, 320]) (NdArray [3] [5, 5, 5])
   = Inr \<lparr>bc_r = 1, bc_h = 2, bc_nz = NpInt 3,
          bc_fluid_T = NdArray [3] [300, 310, 320], bc_film = NdArray [3] [5, 5, 5],
          ifn_fluid = ([0, 1, 2], [300, 310, 320]), ifn_film = ([0, 1, 2], [5, 5, 5])\<rparr>
   \<and> FilmCoefficientConvectiveBC_load sampled_interp1d example_group
     = FilmCoefficientConvectiveBC_init sampled_interp1d 1 2 (NpInt 3)
         (NdArray [3] [300, 310, 320]) (NdArray [3] [5, 5, 5])"
  by (simp add: FilmCoefficientConvectiveBC_init_def FilmCoefficientConvectiveBC_load_def
      example_group_def shape_check_def shape_ne_tuple_def sampled_interp1d_def linspace_def
      Let_def upt_rec)

text \<open>
  C9, amended. For every combination of the constructor arguments \<open>radius\<close>, \<open>height\<close>,
  \<open>nz\<close>, \<open>fluid_T\<close> and \<open>film\<close> in which \<open>nz\<close> is a Python \<^verbatim>\<open>int\<close>,
  \<^verbatim>\<open>FilmCoefficientConvectiveBC.__init__\<close> raises \<^verbatim>\<open>ValueError\<close>: the shape check compares
  the tuple \<^verbatim>\<open>film.shape\<close> with the integer \<open>nz\<close>, so it never passes and no object is
  constructed. When \<open>nz\<close> is a numpy integer, as in \<^verbatim>\<open>load\<close>, the shape check passes if
  \<^verbatim>\<open>fluid_T.shape\<close> and \<^verbatim>\<open>film.shape\<close> are both \<open>(nz,)\<close>.
\<close>

theorem FilmCoefficientConvectiveBC_init_python_int_raises:
  "FilmCoefficientConvectiveBC_init interp1d radius height' (PyInt n) fluid_T film
     = Inl ValueError
   \<and> (map int (shape fluid_T) = [m] \<and> map int (shape film) = [m]
        \<longrightarrow> shape_check (NpInt m) fluid_T film = Inr ())"
  by (auto simp: FilmCoefficientConvectiveBC_init_def shape_check_def shape_ne_tuple_def)

text \<open>
  The constructor at a Python \<^verbatim>\<open>int\<close> \<open>nz = 3\<close> and two arrays of shape \<open>(3,)\<close>, and
  the shape check at the same arrays and the numpy integer 3.
\<close>

theorem FilmCoefficientConvectiveBC_init_python_int_raises_witness:
  "FilmCoefficientConvectiveBC_init sampled_interp1d 1 2 (PyInt 3)
     (NdArray [3] [300, 310, 320]) (NdArray [3] [5, 5, 5]) = Inl ValueError
   \<and> shape_check (NpInt 3) (NdArray [3] [300, 310, 320]) (NdArray [3] [5, 5, 5]) = Inr ()"
  using FilmCoefficientConvectiveBC_init_python_int_raises
    [of sampled_interp1d 1 2 3 "NdArray [3] [300, 310, 320]" "NdArray [3] [5, 5, 5]" 3]
  by simp

subsection \<open>The example tubes, evaluated\<close>

lemma example_tube_1D_eq:
  "example_tube_1D =
     \<lparr>tube_r = 1, tube_t = 1/2, tube_h = 1, nr = 4, nt = 4, nz = 4, abstraction = ''1D'',
      tube_times = [], results = [],
      quadrature_results = [], axial_results = [], T0 = 0, page = False, page_prefix = [],
      multiplier_val = 1, plane = Some 0, angle = Some 0\<rparr>"
  by (simp add: example_tube_1D_def example_tube_def Tube_init_def make_1D_def)

lemma example_tube_2D_eq:
  "example_tube_2D =
     \<lparr>tube_r = 1, tube_t = 1/2, tube_h = 1, nr = 4, nt = 4, nz = 4, abstraction = ''2D'',
      tube_times = [], results = [],
      quadrature_results = [], axial_results = [], T0 = 0, page = False, page_prefix = [],
      multiplier_val = 1, plane = Some 0, angle = None\<rparr>"
  by (simp add: example_tube_2D_def example_tube_def Tube_init_def make_2D_def)

lemma example_tube_timed_eq:
  "example_tube_timed =
     \<lparr>tube_r = 1, tube_t = 1/2, tube_h = 1, nr = 4, nt = 4, nz = 4, abstraction = ''1D'',
      tube_times = [0], results = [],
      quadrature_results = [], axial_results = [], T0 = 0, page = False, page_prefix = [],
      multiplier_val = 1, plane = Some 0, angle = Some 0\<rparr>"
  by (simp add: example_tube_timed_def example_tube_1D_eq set_times_def)

lemma example_tube_loaded_eq:
  "example_tube_loaded =
     \<lparr>tube_r = 1, tube_t = 1/2, tube_h = 1, nr = 4, nt = 4, nz = 4, abstraction = ''1D'',
      tube_times = [0], results = [(''temperature'', NdArray [1, 4] [300, 310, 320, 330])],
      quadrature_results = [], axial_results = [], T0 = 0, page = False, page_prefix = [],
      multiplier_val = 1, plane = Some 0, angle = Some 0\<rparr>"
  by (simp add: example_tube_loaded_def example_tube_timed_eq add_results_def check_rdim_def
      ntime_def setup_memmap_def slice_assign_def np_zeros_def)

subsection \<open>Storing result fields\<close>

text \<open>
  C4. For a tube whose abstraction is 3D, 2D or 1D, \<^verbatim>\<open>add_results(name, data)\<close> raises
  \<^verbatim>\<open>ValueError\<close> if and only if the shape of the data differs from the shape the
  abstraction asks for: \<open>(ntime, nr, nt, nz)\<close> for 3D, \<open>(ntime, nr, nt)\<close> for 2D and
  \<open>(ntime, nr)\<close> for 1D. When it does not raise, the call succeeds and the data is
  stored under the name in the results.
\<close>

theorem add_results_contract:
  assumes "abstraction T = ''3D'' \<or> abstraction T = ''2D'' \<or> abstraction T = ''1D''"
  shows "(fst (add_results name d T) = Inl ValueError \<longleftrightarrow>
            map int (shape d) \<noteq>
              (if abstraction T = ''3D'' then [int (ntime T), nr T, nt T, nz T]
               else if abstraction T = ''2D'' then [int (ntime T), nr T, nt T]
               else [int (ntime T), nr T]))
       \<and> (fst (add_results name d T) \<noteq> Inl ValueError \<longrightarrow>
            fst (add_results name d T) = Inr () \<and>
            map_of (results (snd (add_results name d T))) name = Some d)"
  using assms
  by (auto simp: add_results_def check_rdim_def slice_assign_def setup_memmap_def np_zeros_def
      update_Some_unfold split: sum.splits)

text \<open>
  On the ray with one time sample (\<open>ntime = 1\<close>, \<open>nr = 4\<close>): data of shape \<open>(1, 4)\<close> is
  stored, data of shape \<open>(4,)\<close> is refused.
\<close>

theorem add_results_contract_witness:
  "abstraction example_tube_timed = ''1D''
   \<and> fst (add_results ''temperature'' (NdArray [1, 4] [300, 310, 320, 330]) example_tube_timed)
        = Inr ()
   \<and> map_of (results (snd (add_results ''temperature'' (NdArray [1, 4] [300, 310, 320, 330])
                              example_tube_timed))) ''temperature''
        = Some (NdArray [1, 4] [300, 310, 320, 330])
   \<and> fst (add_results ''temperature'' (NdArray [4] [300, 310, 320, 330]) example_tube_timed)
        = Inl ValueError"
proof -
  have h: "abstraction example_tube_timed = ''3D'' \<or> abstraction example_tube_timed = ''2D''
           \<or> abstraction example_tube_timed = ''1D''"
    by (simp add: example_tube_timed_eq)
  show ?thesis
    using add_results_contract [OF h, of "''temperature''" "NdArray [1, 4] [300, 310, 320, 330]"]
      add_results_contract [OF h, of "''temperature''" "NdArray [4] [300, 310, 320, 330]"]
    by (simp add: example_tube_timed_eq ntime_def)
qed

subsection \<open>Setting the times\<close>

lemma set_times_check_cases:
  "list_all (\<lambda>(name, res). shape res \<noteq> []) rs \<Longrightarrow>
   set_times_check rs n =
     (if list_ex (\<lambda>(name, res). hd (shape res) \<noteq> n) rs then Inl ValueError else Inr ())"
  by (induction rs n rule: set_times_check.induct) (auto split: list.splits)

text \<open>Whatever the tube, a call of \<^verbatim>\<open>set_times\<close> that raises leaves it as it was.\<close>

lemma set_times_atomic: "fst (set_times ts T) = Inl e \<Longrightarrow> snd (set_times ts T) = T"
  by (simp add: set_times_def split: sum.splits)

text \<open>
  The result fields of a tube have a time axis after every sequence of successful
  calls: \<^verbatim>\<open>add_results\<close> stores only arrays of two, three or four dimensions.
\<close>

lemma list_all_update:
  "list_all P xs \<Longrightarrow> P (k, v) \<Longrightarrow> list_all P (AList.update k v xs)"
  by (induction xs) auto

lemma perform_time_axis:
  "perform c T = (Inr u, T') \<Longrightarrow> results_have_time_axis T \<Longrightarrow> results_have_time_axis T'"
  by (cases c)
     (auto simp: set_times_def add_results_def add_quadrature_results_def
        add_axial_results_def check_rdim_def slice_assign_def setup_memmap_def np_zeros_def
        results_have_time_axis_def Let_def
        intro!: list_all_update split: sum.splits list.splits if_splits)

lemma run_time_axis:
  "run cs T = Some T' \<Longrightarrow> results_have_time_axis T \<Longrightarrow> results_have_time_axis T'"
proof (induction cs arbitrary: T)
  case Nil
  then show ?case by simp
next
  case (Cons c cs)
  from Cons.prems(1) obtain u T1
    where p: "perform c T = (Inr u, T1)" and r: "run cs T1 = Some T'"
    by (auto split: prod.splits sum.splits)
  from Cons.IH [OF r] perform_time_axis [OF p Cons.prems(2)] show ?case .
qed

lemma reachable_results_have_time_axis:
  "run cs (Tube_init outer_radius thickness height' nr' nt' nz' T0' page' multiplier) = Some T
   \<Longrightarrow> results_have_time_axis T"
  by (erule run_time_axis) (simp add: Tube_init_def results_have_time_axis_def)

text \<open>
  C5. For a tube whose stored result fields all have a leading (time) dimension,
  \<^verbatim>\<open>set_times(times)\<close> raises \<^verbatim>\<open>ValueError\<close> if and only if some stored result field has a
  leading dimension different from \<^verbatim>\<open>len(times)\<close>. When it raises, the tube, and so its
  stored times, is unchanged; when it does not raise, the call succeeds and the stored
  times are the given ones, nothing else being changed.
\<close>

theorem set_times_contract:
  assumes "results_have_time_axis T"
  shows "(fst (set_times ts T) = Inl ValueError \<longleftrightarrow>
            list_ex (\<lambda>(name, res). hd (shape res) \<noteq> length ts) (results T))
       \<and> (fst (set_times ts T) = Inl ValueError \<longrightarrow> snd (set_times ts T) = T)
       \<and> (fst (set_times ts T) \<noteq> Inl ValueError \<longrightarrow>
            fst (set_times ts T) = Inr () \<and> snd (set_times ts T) = T\<lparr>tube_times := ts\<rparr>)"
  using assms
  by (simp add: set_times_def results_have_time_axis_def set_times_check_cases)

text \<open>
  On the ray that stores a temperature field of shape \<open>(1, 4)\<close>: two time samples are
  refused and the tube is unchanged, one time sample is accepted.
\<close>

theorem set_times_contract_witness:
  "results_have_time_axis example_tube_loaded
   \<and> fst (set_times [0, 1] example_tube_loaded) = Inl ValueError
   \<and> snd (set_times [0, 1] example_tube_loaded) = example_tube_loaded
   \<and> fst (set_times [5] example_tube_loaded) = Inr ()
   \<and> tube_times (snd (set_times [5] example_tube_loaded)) = [5]"
proof -
  have h: "results_have_time_axis example_tube_loaded"
    by (simp add: example_tube_loaded_eq results_have_time_axis_def)
  show ?thesis
    using h set_times_contract [OF h, of "[0, 1]"] set_times_contract [OF h, of "[5]"]
    by (simp add: example_tube_loaded_eq)
qed

subsection \<open>The stored times over a sequence of calls\<close>

lemma perform_times:
  "perform c T = (Inr u, T') \<Longrightarrow>
   tube_times T' = (case c of SetTimes ts \<Rightarrow> ts | _ \<Rightarrow> tube_times T)"
  by (cases c)
     (auto simp: set_times_def add_results_def add_quadrature_results_def
        add_axial_results_def Let_def split: sum.splits list.splits if_splits)

lemma run_times_invariant:
  "run cs T = Some T' \<Longrightarrow> strictly_increasing (tube_times T) \<Longrightarrow>
   list_all (\<lambda>c. strictly_increasing (given_times c)) cs \<Longrightarrow>
   strictly_increasing (tube_times T')"
proof (induction cs arbitrary: T)
  case Nil
  then show ?case by simp
next
  case (Cons c cs)
  from Cons.prems(1) obtain u T1
    where p: "perform c T = (Inr u, T1)" and r: "run cs T1 = Some T'"
    by (auto split: prod.splits sum.splits)
  have "strictly_increasing (tube_times T1)"
    using perform_times [OF p] Cons.prems(2,3) by (cases c) simp_all
  with Cons.IH [OF r] Cons.prems(3) show ?case by simp
qed

text \<open>
  C6, as stated, fails: \<^verbatim>\<open>set_times\<close> stores whatever sequence it is given. On the
  tube as constructed, \<^verbatim>\<open>set_times([2, 1])\<close> succeeds and the stored times are then
  \<open>[2, 1]\<close>, which is not strictly increasing.
\<close>

theorem set_times_unordered_counterexample:
  "run [SetTimes [2, 1]] example_tube = Some (example_tube\<lparr>tube_times := [2, 1]\<rparr>)
   \<and> \<not> strictly_increasing (tube_times (example_tube\<lparr>tube_times := [2, 1]\<rparr>))"
  by (simp add: example_tube_def Tube_init_def set_times_def strictly_increasing_def)

text \<open>
  C6, amended. For a tube reached from its construction by a sequence of successful
  calls of \<^verbatim>\<open>set_times\<close>, \<^verbatim>\<open>add_results\<close>, \<^verbatim>\<open>add_quadrature_results\<close> and
  \<^verbatim>\<open>add_axial_results\<close>, the stored time samples are strictly increasing provided every
  sequence handed to \<^verbatim>\<open>set_times\<close> along the way was strictly increasing.
\<close>

theorem run_times_strictly_increasing:
  assumes "run cs (Tube_init outer_radius thickness height' nr' nt' nz' T0' page' multiplier)
             = Some T"
    and "list_all (\<lambda>c. strictly_increasing (given_times c)) cs"
  shows "strictly_increasing (tube_times T)"
  using run_times_invariant [OF assms(1) _ assms(2)]
  by (simp add: Tube_init_def strictly_increasing_def)

text \<open>Two increasing time samples, then a quadrature field with two time steps.\<close>

theorem run_times_strictly_increasing_witness:
  "run [SetTimes [0, 1], AddQuadratureResults ''stress'' (NdArray [2] [7, 8])] example_tube
     = Some (example_tube\<lparr>tube_times := [0, 1],
               quadrature_results := [(''stress'', NdArray [2] [7, 8])]\<rparr>)
   \<and> strictly_increasing [0, 1]
   \<and> strictly_increasing (tube_times (example_tube\<lparr>tube_times := [0, 1],
               quadrature_results := [(''stress'', NdArray [2] [7, 8])]\<rparr>))"
proof -
  have r: "run [SetTimes [0, 1], AddQuadratureResults ''stress'' (NdArray [2] [7, 8])]
             (Tube_init 1 (1/2) 1 4 4 4 0 False 1)
           = Some (example_tube\<lparr>tube_times := [0, 1],
               quadrature_results := [(''stress'', NdArray [2] [7, 8])]\<rparr>)"
    by (simp add: example_tube_def Tube_init_def set_times_def add_quadrature_results_def
        ntime_def setup_memmap_def slice_assign_def np_zeros_def)
  have g: "list_all (\<lambda>c. strictly_increasing (given_times c))
             [SetTimes [0, 1], AddQuadratureResults ''stress'' (NdArray [2] [7, 8])]"
    by (simp add: strictly_increasing_def)
  show ?thesis
    using run_times_strictly_increasing [OF r g] r g
    by (simp add: example_tube_def)
qed


subsection \<open>Surface elements and their normals\<close>

lemma update_replicate_ends:
  "(replicate n z)[0 := A, n - Suc 0 := B] =
     map (\<lambda>i. if i = n - 1 then B else if i = 0 then A else z) [0..<n]"
  by (rule nth_equalityI) (auto simp: nth_list_update)

lemma radial_mask_eq: "radial_mask n = map (\<lambda>i. i = n - 1 \<or> i = 0) [0..<n]"
  by (simp add: radial_mask_def update_replicate_ends)

lemma list_all2_replicate_left:
  "length ys = n \<Longrightarrow> (\<And>y. y \<in> set ys \<Longrightarrow> P s y) \<Longrightarrow> list_all2 P (replicate n s) ys"
  by (auto simp: list_all2_conv_all_nth)

lemma list_all2_concat:
  "list_all2 (list_all2 P) xss yss \<Longrightarrow> list_all2 P (concat xss) (concat yss)"
  by (induction xss yss rule: list_all2_induct) (auto intro: list_all2_appendI)

lemma list_all2_map_upt:
  "(\<And>i. i < n \<Longrightarrow> P (f i) (g i)) \<Longrightarrow> list_all2 P (map f [0..<n]) (map g [0..<n])"
  by (auto simp: list_all2_conv_all_nth)

lemma concat_replicate_replicate:
  "concat (replicate m (replicate k x)) = replicate (m * k) x"
  by (induction m) (auto simp: replicate_add)

lemma outer_bool_ones: "np_outer_bool r (replicate m True) = map (\<lambda>x. replicate m x) r"
  by (simp add: np_outer_bool_def)

lemma outer_outer_bool:
  "concat (np_outer_bool (concat (np_outer_bool r (replicate m True))) (replicate k True))
   = concat (map (\<lambda>x. replicate (m * k) x) r)"
  by (induction r) (auto simp: np_outer_bool_def concat_replicate_replicate)

lemma euclidean_length_radial: "euclidean_length [cos a, sin a, 0] = 1"
  by (simp add: euclidean_length_def)

lemma euclidean_length_radial_neg: "euclidean_length [- cos a, - sin a, 0] = 1"
  by (simp add: euclidean_length_def)

lemma length_linspace: "length (linspace a b n) = n"
  by (simp add: linspace_def)

lemma radial_normals_unit: "v \<in> set (radial_normals m) \<Longrightarrow> euclidean_length v = 1"
  by (auto simp: radial_normals_def euclidean_length_radial)

lemma radial_normals_neg_unit:
  "v \<in> set (radial_normals m) \<Longrightarrow> euclidean_length (map uminus v) = 1"
  by (auto simp: radial_normals_def euclidean_length_radial_neg)

lemma length_radial_normals: "length (radial_normals m) = m"
  by (simp add: radial_normals_def length_linspace)

lemma surface_elements_1d_fits:
  assumes "2 \<le> nr T"
  shows "\<exists>surface normals. surface_elements_1d T = Inr (surface, normals)
           \<and> list_all2 normal_fits surface normals"
proof -
  have "normal_fits (i = n - 1 \<or> i = 0)
          (if i = n - 1 then [1, 0, 0] else if i = 0 then map uminus [1, 0, 0] else [0, 0, 0])"
    for i n :: nat
    by (simp add: normal_fits_def euclidean_length_def)
  then show ?thesis
    using assms
    by (simp add: surface_elements_1d_def Let_def radial_mask_eq update_replicate_ends
        list_all2_map_upt del: list.map)
qed

lemma sum_list_replicate_nat: "sum_list (map length (map (\<lambda>v. replicate k v) xs)) = length xs * k"
  by (induction xs) auto

lemma rows_2d_fit:
  "list_all2 normal_fits
     (concat (map (\<lambda>i. replicate m (i = n - 1 \<or> i = 0)) [0..<n]))
     (concat (map (\<lambda>i. if i = n - 1 then radial_normals m
                       else if i = 0 then map (map uminus) (radial_normals m)
                       else replicate m [0, 0, 0]) [0..<n]))"
proof -
  have row: "list_all2 normal_fits (replicate m (i = n - 1 \<or> i = 0))
          (if i = n - 1 then radial_normals m
           else if i = 0 then map (map uminus) (radial_normals m)
           else replicate m [0, 0, 0])" for i
    by (auto intro!: list_all2_replicate_left
        simp: normal_fits_def length_radial_normals radial_normals_unit radial_normals_neg_unit)
  show ?thesis
    by (intro list_all2_concat list_all2_map_upt row)
qed

lemma surface_elements_2d_fits:
  assumes "2 \<le> nr T" and "0 \<le> nt T"
  shows "\<exists>surface normals. surface_elements_2d T = Inr (surface, normals)
           \<and> list_all2 normal_fits surface normals"
  using assms rows_2d_fit [of "nat (nt T)" "nat (nr T - 1)"]
  by (simp add: surface_elements_2d_def Let_def radial_mask_eq update_replicate_ends
      outer_bool_ones comp_def del: list.map)

lemma length_concat_replicate_rows:
  "length (concat (map (\<lambda>v. replicate k (f v)) xs)) = length xs * k"
  by (induction xs) auto

lemma rows_3d_fit:
  "list_all2 normal_fits
     (concat (map (\<lambda>i. replicate (m * k) (i = n - 1 \<or> i = 0)) [0..<n]))
     (concat (map concat
        (map (\<lambda>i. if i = n - 1 then map (\<lambda>v. replicate k v) (radial_normals m)
                  else if i = 0 then map (\<lambda>v. replicate k (map uminus v)) (radial_normals m)
                  else replicate m (replicate k [0, 0, 0])) [0..<n])))"
proof -
  have row: "list_all2 normal_fits (replicate (m * k) (i = n - 1 \<or> i = 0))
          (concat (if i = n - 1 then map (\<lambda>v. replicate k v) (radial_normals m)
           else if i = 0 then map (\<lambda>v. replicate k (map uminus v)) (radial_normals m)
           else replicate m (replicate k [0, 0, 0])))" for i
    by (auto intro!: list_all2_replicate_left
        simp: normal_fits_def length_radial_normals radial_normals_unit radial_normals_neg_unit
          length_concat_replicate_rows concat_replicate_replicate)
  show ?thesis
    unfolding map_map comp_def
    by (intro list_all2_concat list_all2_map_upt row)
qed

lemma surface_elements_3d_fits:
  assumes "2 \<le> nr T" and "0 \<le> nt T" and "1 \<le> nz T"
  shows "\<exists>surface normals. surface_elements_3d T = Inr (surface, normals)
           \<and> list_all2 normal_fits surface normals"
  using assms rows_3d_fit [of "nat (nt T)" "nat (nz T - 1)" "nat (nr T - 1)"]
  by (simp add: surface_elements_3d_def Let_def radial_mask_eq update_replicate_ends
      outer_outer_bool comp_def del: list.map)

text \<open>
  C2, as stated, fails: the normals array has one row for every element, and the rows of
  the elements that are not on a surface are zero (\<^emph>\<open>zeros for solids\<close>, in the words of
  the docstring). On the 1D example tube, with \<open>nr = 4\<close>, the middle one of the three
  rows is the zero vector, of length 0.
\<close>

theorem surface_elements_interior_normal_counterexample:
  "surface_elements example_tube_1D
     = Inr ([True, False, True], [[-1, 0, 0], [0, 0, 0], [1, 0, 0]])
   \<and> euclidean_length ([[-1, 0, 0], [0, 0, 0], [1, 0, 0]] ! 1) \<noteq> 1"
  by (simp add: surface_elements_def ndim_def example_tube_1D_eq surface_elements_1d_def
      radial_mask_def Let_def numeral_3_eq_3 euclidean_length_def)

text \<open>
  C2, amended. For every tube (abstraction 1D, 2D or 3D, with \<open>nr\<close>, \<open>nt\<close> and \<open>nz\<close> at
  least 2), \<^verbatim>\<open>surface_elements\<close> returns a mask and an array of normals of the same
  length in which the normal of every element that the mask marks as a surface element
  has unit Euclidean length, and the normal of every other element is the zero vector.
\<close>

theorem surface_normals_unit_on_surface:
  assumes "abstraction T = ''1D'' \<or> abstraction T = ''2D'' \<or> abstraction T = ''3D''"
    and "2 \<le> nr T" and "2 \<le> nt T" and "2 \<le> nz T"
  shows "\<exists>surface normals. surface_elements T = Inr (surface, normals)
           \<and> list_all2 normal_fits surface normals"
  using assms surface_elements_1d_fits [of T] surface_elements_2d_fits [of T]
    surface_elements_3d_fits [of T]
  by (auto simp: surface_elements_def ndim_def)

text \<open>The 1D example tube: two surface elements with unit normals around a solid one.\<close>

theorem surface_normals_unit_on_surface_witness:
  "abstraction example_tube_1D = ''1D''
   \<and> 2 \<le> nr example_tube_1D \<and> 2 \<le> nt example_tube_1D \<and> 2 \<le> nz example_tube_1D
   \<and> surface_elements example_tube_1D
       = Inr ([True, False, True], [[-1, 0, 0], [0, 0, 0], [1, 0, 0]])
   \<and> list_all2 normal_fits [True, False, True] [[-1, 0, 0], [0, 0, 0], [1, 0, 0]]"
proof -
  have a: "abstraction example_tube_1D = ''1D'' \<or> abstraction example_tube_1D = ''2D''
           \<or> abstraction example_tube_1D = ''3D''"
    and n: "2 \<le> nr example_tube_1D" "2 \<le> nt example_tube_1D" "2 \<le> nz example_tube_1D"
    by (simp_all add: example_tube_1D_eq)
  have e: "surface_elements example_tube_1D
             = Inr ([True, False, True], [[-1, 0, 0], [0, 0, 0], [1, 0, 0]])"
    by (simp add: surface_elements_def ndim_def example_tube_1D_eq surface_elements_1d_def
        radial_mask_def Let_def numeral_3_eq_3)
  from surface_normals_unit_on_surface [OF a n] e
  have "list_all2 normal_fits [True, False, True] [[-1, 0, 0], [0, 0, 0], [1, 0, 0]]"
    by auto
  with e n show ?thesis
    by (simp add: example_tube_1D_eq)
qed


subsection \<open>Evenly spaced samples and their differences\<close>

lemma nth_linspace:
  "i < n \<Longrightarrow> linspace a b n ! i = a + real i * ((b - a) / real (n - 1))"
  by (auto simp: linspace_def)

lemma np_diff_linspace:
  "np_diff (linspace a b (Suc n)) = replicate n ((b - a) / real n)"
proof (rule nth_equalityI)
  show "length (np_diff (linspace a b (Suc n))) = length (replicate n ((b - a) / real n))"
    by (simp add: np_diff_def length_linspace)
next
  fix i assume "i < length (np_diff (linspace a b (Suc n)))"
  then have i: "i < n"
    by (simp add: np_diff_def length_linspace)
  then have "np_diff (linspace a b (Suc n)) ! i
             = linspace a b (Suc n) ! Suc i - linspace a b (Suc n) ! i"
    by (simp add: np_diff_def length_linspace nth_tl nth_butlast)
  also have "\<dots> = (b - a) / real n"
  proof -
    have "(a + real (Suc i) * s) - (a + real i * s) = s" for s :: real
      by (simp add: algebra_simps)
    moreover have "linspace a b (Suc n) ! Suc i = a + real (Suc i) * ((b - a) / real n)"
      using i nth_linspace [of "Suc i" "Suc n" a b] by simp
    moreover have "linspace a b (Suc n) ! i = a + real i * ((b - a) / real n)"
      using i nth_linspace [of i "Suc n" a b] by simp
    ultimately show ?thesis
      by (simp only:)
  qed
  finally show "np_diff (linspace a b (Suc n)) ! i = replicate n ((b - a) / real n) ! i"
    using i by simp
qed

lemma zip_tl_butlast_linspace:
  assumes "(y, x) \<in> set (zip (tl (linspace a b n)) (butlast (linspace a b n)))"
  shows "\<exists>i. Suc i < n \<and> x = a + real i * ((b - a) / real (n - 1))
              \<and> y = x + (b - a) / real (n - 1)"
proof -
  from assms obtain i where i: "i < n - 1"
    and y: "y = tl (linspace a b n) ! i" and x: "x = butlast (linspace a b n) ! i"
    by (auto simp: in_set_zip length_linspace)
  from i have "Suc i < n" by simp
  moreover from i x have "x = a + real i * ((b - a) / real (n - 1))"
    by (simp add: nth_butlast length_linspace nth_linspace)
  moreover from i y have "y = a + real (Suc i) * ((b - a) / real (n - 1))"
    by (simp add: nth_tl length_linspace nth_linspace)
  moreover have "a + real (Suc i) * s = (a + real i * s) + s" for s :: real
    by (simp add: algebra_simps)
  ultimately show ?thesis
    by blast
qed

lemma linspace_nonempty: "0 < n \<Longrightarrow> linspace a b n \<noteq> []"
  using length_linspace [of a b n] by auto

lemma hd_linspace: "0 < n \<Longrightarrow> hd (linspace a b n) = a"
  using nth_linspace [of 0 n a b] by (simp add: hd_conv_nth linspace_nonempty)

lemma last_linspace: "2 \<le> n \<Longrightarrow> last (linspace a b n) = b"
  using nth_linspace [of "n - 1" n a b]
  by (simp add: last_conv_nth linspace_nonempty length_linspace)

subsection \<open>Element surface areas\<close>

lemma surfacearea1d_raises:
  "surfacearea1d T = Inl (if nr T = 1 then IndexError else ValueError)"
  by (simp add: surfacearea1d_def np_concatenate_def Let_def)

text \<open>
  C3 asks that \<^verbatim>\<open>element_surface_areas\<close> return, without raising, an array of
  non-negative areas for every tube with \<open>nr\<close>, \<open>nt\<close>, \<open>nz\<close> at least 2. The 1D branch
  does not: \<^verbatim>\<open>_surfacearea1d\<close> hands the two numpy scalars \<^verbatim>\<open>surface_area[0]\<close> and
  \<^verbatim>\<open>surface_area[-1]\<close> to \<^verbatim>\<open>np.concatenate\<close>, which refuses 0-dimensional operands, so
  for every 1D tube with \<open>nr\<close> at least 2 the call raises \<^verbatim>\<open>ValueError\<close>.
\<close>

theorem element_surface_areas_1D_raises:
  assumes "abstraction T = ''1D''" and "2 \<le> nr T"
  shows "element_surface_areas T = Inl ValueError"
  using assms by (simp add: element_surface_areas_def ndim_def surfacearea1d_raises)

text \<open>The 1D example tube (\<open>nr = 4\<close>): the call raises.\<close>

theorem element_surface_areas_1D_raises_witness:
  "abstraction example_tube_1D = ''1D'' \<and> 2 \<le> nr example_tube_1D
   \<and> element_surface_areas example_tube_1D = Inl ValueError"
proof -
  have a: "abstraction example_tube_1D = ''1D''" and n: "2 \<le> nr example_tube_1D"
    by (simp_all add: example_tube_1D_eq)
  from element_surface_areas_1D_raises [OF a n] a n show ?thesis by simp
qed

text \<open>
  The 2D and 3D branches concatenate rows, not scalars, and do what C3 asks: they return
  non-negative areas.
\<close>

lemma surfacearea2d_nonneg:
  assumes "2 \<le> nr T" and "1 \<le> nt T" and "0 \<le> tube_t T" and "tube_t T \<le> tube_r T"
    and "0 \<le> tube_h T"
  shows "\<exists>areas. surfacearea2d T = Inr areas \<and> list_all (\<lambda>x. 0 \<le> x) areas"
proof -
  have nt: "nat (nt T + 1) = Suc (nat (nt T))"
    using assms(2) by simp
  have "0 < nat (nr T - 1)" "nat (nr T) \<ge> 2"
    using assms(1) by simp_all
  then show ?thesis
    using assms
    by (auto simp: surfacearea2d_def Let_def np_concatenate_def nt np_diff_linspace
        update_replicate_ends hd_map last_map hd_linspace last_linspace hd_conv_nth last_conv_nth
        list_all_iff)
qed

lemma surfacearea3d_nonneg:
  assumes "2 \<le> nr T" and "1 \<le> nt T" and "1 \<le> nz T" and "0 \<le> tube_t T"
    and "tube_t T \<le> tube_r T" and "0 \<le> tube_h T"
  shows "\<exists>areas. surfacearea3d T = Inr areas \<and> list_all (\<lambda>x. 0 \<le> x) areas"
proof -
  have nt: "nat (nt T + 1) = Suc (nat (nt T))"
    using assms(2) by simp
  have nz: "nat (nz T) = Suc (nat (nz T - 1))"
    using assms(3) by simp
  have "0 < nat (nr T - 1)" "nat (nr T) \<ge> 2"
    using assms(1) by simp_all
  then show ?thesis
    using assms
    by (auto simp: surfacearea3d_def Let_def np_concatenate_def nt nz np_diff_linspace
        update_replicate_ends hd_map last_map hd_linspace last_linspace hd_conv_nth
        last_conv_nth list_all_iff)
qed

subsection \<open>Element volumes\<close>

lemma volume_sqrt_arg_eq:
  "volume_sqrt_arg r theta =
     map (\<lambda>(r1, r0). map (\<lambda>th. (r1 - r0)\<^sup>2 - ((2 * r1 * sin (th / 2) - 2 * r0 * sin (th / 2)) / 2)\<^sup>2) theta)
       (zip (tl r) (butlast r))"
  by (simp add: volume_sqrt_arg_def volume_edge_def volume_a_def volume_b_def np_outer_def
      zip_map_map zip_same_conv_map split_def comp_def)

lemma zip_zip_swap:
  "zip (zip xs ys) (zip ys xs) = map (\<lambda>p. ((snd p, fst p), p)) (zip ys xs)"
  by (induction xs ys rule: list_induct2') auto

lemma volume_base_eq:
  "volume_base r theta =
     map (\<lambda>(r1, r0). map (\<lambda>th.
            0.5 * (2 * r0 * sin (th / 2) + 2 * r1 * sin (th / 2))
            * sqrt ((r1 - r0)\<^sup>2 - ((2 * r1 * sin (th / 2) - 2 * r0 * sin (th / 2)) / 2)\<^sup>2)) theta)
       (zip (tl r) (butlast r))"
  by (simp add: volume_base_def volume_sqrt_arg_eq volume_a_def volume_b_def np_outer_def
      zip_map_map zip_same_conv_map zip_zip_swap split_def comp_def Let_def)

lemma sqrt_arg_nonneg:
  fixes s :: real
  shows "0 \<le> ((r0 + s) - r0)\<^sup>2 - ((2 * (r0 + s) * sin x - 2 * r0 * sin x) / 2)\<^sup>2"
proof -
  have "((r0 + s) - r0)\<^sup>2 - ((2 * (r0 + s) * sin x - 2 * r0 * sin x) / 2)\<^sup>2
        = s\<^sup>2 * (1 - (sin x)\<^sup>2)"
    by (simp add: algebra_simps power2_eq_square)
  also have "\<dots> = s\<^sup>2 * (cos x)\<^sup>2"
    by (simp add: cos_squared_eq)
  finally show ?thesis
    by simp
qed

lemma volume_sqrt_arg_nonneg:
  assumes "row \<in> set (volume_sqrt_arg (linspace a b n) theta)" and "x \<in> set row"
  shows "0 \<le> x"
proof -
  from assms obtain r1 r0 th
    where z: "(r1, r0) \<in> set (zip (tl (linspace a b n)) (butlast (linspace a b n)))"
      and x: "x = (r1 - r0)\<^sup>2 - ((2 * r1 * sin (th / 2) - 2 * r0 * sin (th / 2)) / 2)\<^sup>2"
    by (auto simp: volume_sqrt_arg_eq)
  from zip_tl_butlast_linspace [OF z] obtain s where "r1 = r0 + s"
    by blast
  with x sqrt_arg_nonneg [of r0 s "th / 2"] show ?thesis
    by simp
qed

lemma volume_base_nonneg:
  assumes "row \<in> set (volume_base (linspace a b n) theta)" and "x \<in> set row"
    and "0 \<le> a" and "a \<le> b" and "\<And>th. th \<in> set theta \<Longrightarrow> 0 \<le> sin (th / 2)"
  shows "0 \<le> x"
proof -
  from assms(1,2) obtain r1 r0 th
    where z: "(r1, r0) \<in> set (zip (tl (linspace a b n)) (butlast (linspace a b n)))"
      and th: "th \<in> set theta"
      and x: "x = 0.5 * (2 * r0 * sin (th / 2) + 2 * r1 * sin (th / 2))
                  * sqrt ((r1 - r0)\<^sup>2 - ((2 * r1 * sin (th / 2) - 2 * r0 * sin (th / 2)) / 2)\<^sup>2)"
    by (auto simp: volume_base_eq)
  from zip_tl_butlast_linspace [OF z] obtain i
    where r0: "r0 = a + real i * ((b - a) / real (n - 1))"
      and r1: "r1 = r0 + (b - a) / real (n - 1)"
    by blast
  have s: "0 \<le> (b - a) / real (n - 1)"
    using assms(4) by simp
  then have "0 \<le> real i * ((b - a) / real (n - 1))"
    by (intro mult_nonneg_nonneg) simp_all
  then have "0 \<le> a + real i * ((b - a) / real (n - 1))"
    using assms(3) by (rule add_nonneg_nonneg [rotated])
  then have r0_nonneg: "0 \<le> r0"
    by (simp only: r0)
  then have "0 \<le> r0 + (b - a) / real (n - 1)"
    using s by (rule add_nonneg_nonneg)
  then have r1_nonneg: "0 \<le> r1"
    by (simp only: r1)
  have sn: "0 \<le> sin (th / 2)"
    by (rule assms(5) [OF th])
  have "0 \<le> 2 * r0 * sin (th / 2) + 2 * r1 * sin (th / 2)"
    using r0_nonneg r1_nonneg sn by (intro add_nonneg_nonneg mult_nonneg_nonneg) simp_all
  moreover have "0 \<le> sqrt ((r1 - r0)\<^sup>2 - ((2 * r1 * sin (th / 2) - 2 * r0 * sin (th / 2)) / 2)\<^sup>2)"
    using sqrt_arg_nonneg [of r0 "(b - a) / real (n - 1)" "th / 2"] r1 by simp
  ultimately show ?thesis
    unfolding x by (intro mult_nonneg_nonneg) simp_all
qed

lemma theta_sin_nonneg:
  assumes "th \<in> set (np_diff (linspace 0 (2 * pi) (Suc m)))"
  shows "0 \<le> sin (th / 2)"
proof -
  from assms have m: "0 < m" and th: "th = 2 * pi / real m"
    by (auto simp: np_diff_linspace)
  have "0 \<le> pi / real m"
    by simp
  moreover have "pi / real m \<le> pi"
    using m by (simp add: field_simps)
  ultimately have "0 \<le> sin (pi / real m)"
    by (rule sin_ge_zero)
  with th show ?thesis
    by simp
qed

lemma linspace_pair_ordered:
  assumes "(r1, r0) \<in> set (zip (tl (linspace a b n)) (butlast (linspace a b n)))"
    and "0 \<le> a" and "a \<le> b"
  shows "0 \<le> r0 \<and> r0 \<le> r1"
proof -
  from zip_tl_butlast_linspace [OF assms(1)] obtain i
    where r0: "r0 = a + real i * ((b - a) / real (n - 1))"
      and r1: "r1 = r0 + (b - a) / real (n - 1)"
    by blast
  have s: "0 \<le> (b - a) / real (n - 1)"
    using assms(3) by simp
  then have "0 \<le> real i * ((b - a) / real (n - 1))"
    by (intro mult_nonneg_nonneg) simp_all
  then have "0 \<le> a + real i * ((b - a) / real (n - 1))"
    using assms(2) by (rule add_nonneg_nonneg [rotated])
  then have "0 \<le> r0"
    by (simp only: r0)
  moreover have "r0 \<le> r1"
    using s by (simp add: r1)
  ultimately show ?thesis
    by simp
qed

lemma volume1d_nonneg:
  assumes "0 \<le> nr T" and "0 \<le> tube_t T" and "tube_t T \<le> tube_r T" and "0 \<le> tube_h T"
  shows "\<exists>vols. volume1d T = Inr vols \<and> list_all (\<lambda>v. 0 \<le> v) vols"
proof -
  let ?L = "linspace (tube_r T - tube_t T) (tube_r T) (nat (nr T))"
  have "0 \<le> pi * (r1\<^sup>2 - r0\<^sup>2) * tube_h T" if "(r1, r0) \<in> set (zip (tl ?L) (butlast ?L))" for r1 r0
  proof -
    from linspace_pair_ordered [OF that] assms(2,3) have "0 \<le> r0" "r0 \<le> r1"
      by simp_all
    then have "r0\<^sup>2 \<le> r1\<^sup>2"
      by (rule power_mono [rotated])
    then show ?thesis
      using assms(4) by (intro mult_nonneg_nonneg) simp_all
  qed
  then show ?thesis
    using assms(1) by (auto simp: volume1d_def Let_def list_all_iff)
qed

lemma volume2d_nonneg:
  assumes "0 \<le> nr T" and "0 \<le> nt T" and "0 \<le> tube_t T" and "tube_t T \<le> tube_r T"
    and "0 \<le> tube_h T"
  shows "\<exists>vols. volume2d T = Inr vols \<and> list_all (\<lambda>v. 0 \<le> v) vols"
proof -
  let ?L = "linspace (tube_r T - tube_t T) (tube_r T) (nat (nr T))"
  let ?th = "np_diff (linspace 0 (2 * pi) (nat (nt T + 1)))"
  have nt: "nat (nt T + 1) = Suc (nat (nt T))"
    using assms(2) by simp
  have "0 \<le> x * tube_h T" if "row \<in> set (volume_base ?L ?th)" and "x \<in> set row" for row x
  proof -
    have "0 \<le> x"
      using that assms(3,4) theta_sin_nonneg [of _ "nat (nt T)"]
      by (intro volume_base_nonneg [OF that]) (simp_all add: nt)
    then show ?thesis
      using assms(5) by (rule mult_nonneg_nonneg)
  qed
  then show ?thesis
    using assms(1,2) by (auto simp: volume2d_def Let_def list_all_iff)
qed

lemma volume3d_nonneg:
  assumes "0 \<le> nr T" and "0 \<le> nt T" and "1 \<le> nz T" and "0 \<le> tube_t T"
    and "tube_t T \<le> tube_r T" and "0 \<le> tube_h T"
  shows "\<exists>vols. volume3d T = Inr vols \<and> list_all (\<lambda>v. 0 \<le> v) vols"
proof -
  let ?L = "linspace (tube_r T - tube_t T) (tube_r T) (nat (nr T))"
  let ?th = "np_diff (linspace 0 (2 * pi) (nat (nt T + 1)))"
  let ?hs = "np_diff (linspace 0 (tube_h T) (nat (nz T)))"
  have nt: "nat (nt T + 1) = Suc (nat (nt T))"
    using assms(2) by simp
  have nz: "nat (nz T) = Suc (nat (nz T - 1))"
    using assms(3) by simp
  have hs: "0 \<le> hk" if "hk \<in> set ?hs" for hk
    using that assms(6) by (auto simp: nz np_diff_linspace)
  have "0 \<le> hk * x"
    if "row \<in> set (volume_base ?L ?th)" and "x \<in> set row" and "hk \<in> set ?hs" for row x hk
  proof -
    have "0 \<le> x"
      using that(1,2) assms(4,5) theta_sin_nonneg [of _ "nat (nt T)"]
      by (intro volume_base_nonneg [OF that(1,2)]) (simp_all add: nt)
    with hs [OF that(3)] show ?thesis
      by (rule mult_nonneg_nonneg)
  qed
  then show ?thesis
    using assms(1,2,3) by (auto simp: volume3d_def Let_def list_all_iff)
qed

lemma element_volume_sqrt_args_nonneg: "list_all (\<lambda>x. 0 \<le> x) (element_volume_sqrt_args T)"
  by (auto simp: element_volume_sqrt_args_def list_all_iff dest: volume_sqrt_arg_nonneg)

text \<open>
  C7. For every tube with \<open>0 \<le> thickness \<le> outer_radius\<close>, \<open>height \<ge> 0\<close> and \<open>nr\<close>,
  \<open>nt\<close>, \<open>nz\<close> at least 2, in each of the 1D, 2D and 3D abstractions,
  \<^verbatim>\<open>element_volumes\<close> returns an array whose entries are all non-negative, and every
  argument of the square root in the 2D and 3D volume formulas is non-negative.
\<close>

theorem element_volumes_nonneg:
  assumes "abstraction T = ''1D'' \<or> abstraction T = ''2D'' \<or> abstraction T = ''3D''"
    and "0 \<le> tube_t T" and "tube_t T \<le> tube_r T" and "0 \<le> tube_h T"
    and "2 \<le> nr T" and "2 \<le> nt T" and "2 \<le> nz T"
  shows "\<exists>vols. element_volumes T = Inr vols \<and> list_all (\<lambda>v. 0 \<le> v) vols
           \<and> list_all (\<lambda>x. 0 \<le> x) (element_volume_sqrt_args T)"
  using assms volume1d_nonneg [of T] volume2d_nonneg [of T] volume3d_nonneg [of T]
    element_volume_sqrt_args_nonneg [of T]
  by (auto simp: element_volumes_def ndim_def)

text \<open>The 3D example tube: outer radius 1, thickness 1/2, height 1, a 4 x 4 x 4 grid.\<close>

theorem element_volumes_nonneg_witness:
  "abstraction example_tube = ''3D''
   \<and> 0 \<le> tube_t example_tube \<and> tube_t example_tube \<le> tube_r example_tube
   \<and> 0 \<le> tube_h example_tube
   \<and> 2 \<le> nr example_tube \<and> 2 \<le> nt example_tube \<and> 2 \<le> nz example_tube
   \<and> (\<exists>vols. element_volumes example_tube = Inr vols \<and> list_all (\<lambda>v. 0 \<le> v) vols
         \<and> list_all (\<lambda>x. 0 \<le> x) (element_volume_sqrt_args example_tube))"
proof -
  have h: "abstraction example_tube = ''1D'' \<or> abstraction example_tube = ''2D''
           \<or> abstraction example_tube = ''3D''"
    "0 \<le> tube_t example_tube" "tube_t example_tube \<le> tube_r example_tube"
    "0 \<le> tube_h example_tube"
    "2 \<le> nr example_tube" "2 \<le> nt example_tube" "2 \<le> nz example_tube"
    by (simp_all add: example_tube_def Tube_init_def)
  from element_volumes_nonneg [OF h] h show ?thesis
    by (simp add: example_tube_def Tube_init_def)
qed


subsection \<open>Interpolation at arrays\<close>

text \<open>
  C10, as stated, fails at the empty list, a list in which no entry is a scalar: Python's
  \<^verbatim>\<open>all\<close> of no values is true, so \<^verbatim>\<open>ifn([])\<close> takes the first branch and returns
  \<^verbatim>\<open>base([])\<close>. With an interpolation method that returns 0, \<^verbatim>\<open>ifn([])\<close> returns 0.
\<close>

theorem make_ifn_empty_counterexample:
  "list_all (\<lambda>a. \<not> isscalar a) []
   \<and> make_ifn zero_base [] = Inr (Scalar 0)"
  by (simp add: make_ifn_def zero_base_def)

text \<open>
  C10, amended. For every interpolation function \<^verbatim>\<open>ifn\<close> produced by \<^verbatim>\<open>_make_ifn\<close>,
  calling \<^verbatim>\<open>ifn(mdata)\<close> with a non-empty list in which no entry is a scalar raises
  \<^verbatim>\<open>UnboundLocalError\<close>, which is a \<^verbatim>\<open>NameError\<close> (the variable \<^verbatim>\<open>ndata\<close> of that branch was
  never assigned); so \<^verbatim>\<open>HeatFluxBC.flux\<close> never returns a value when its three
  coordinate arguments are arrays.
\<close>

theorem make_ifn_all_arrays_raises:
  assumes "mdata \<noteq> []" and "list_all (\<lambda>a. \<not> isscalar a) mdata"
  shows "make_ifn base mdata = Inl UnboundLocalError
       \<and> isinstance_NameError UnboundLocalError
       \<and> HeatFluxBC_flux base (Arr t) (Arr theta) (Arr z) = Inl UnboundLocalError"
proof -
  from assms have "\<not> list_all isscalar mdata"
    by (cases mdata) auto
  moreover from assms(2) have "\<not> list_ex isscalar mdata"
    by (auto simp: list_all_iff list_ex_iff)
  ultimately show ?thesis
    by (simp add: make_ifn_def HeatFluxBC_flux_def)
qed

text \<open>Three coordinate arrays of two points each.\<close>

theorem make_ifn_all_arrays_raises_witness:
  "[Arr (NdArray [2] [0, 1]), Arr (NdArray [2] [0, pi]), Arr (NdArray [2] [0, 1])] \<noteq> []
   \<and> list_all (\<lambda>a. \<not> isscalar a)
        [Arr (NdArray [2] [0, 1]), Arr (NdArray [2] [0, pi]), Arr (NdArray [2] [0, 1])]
   \<and> make_ifn zero_base
        [Arr (NdArray [2] [0, 1]), Arr (NdArray [2] [0, pi]), Arr (NdArray [2] [0, 1])]
       = Inl UnboundLocalError
   \<and> HeatFluxBC_flux zero_base (Arr (NdArray [2] [0, 1])) (Arr (NdArray [2] [0, pi]))
        (Arr (NdArray [2] [0, 1])) = Inl UnboundLocalError"
proof -
  have n: "[Arr (NdArray [2] [0, 1]), Arr (NdArray [2] [0, pi]), Arr (NdArray [2] [0, 1])] \<noteq> []"
    by simp
  have a: "list_all (\<lambda>a. \<not> isscalar a)
        [Arr (NdArray [2] [0, 1]), Arr (NdArray [2] [0, pi]), Arr (NdArray [2] [0, 1])]"
    by simp
  from make_ifn_all_arrays_raises [OF n a, of zero_base "NdArray [2] [0, 1]"
      "NdArray [2] [0, pi]" "NdArray [2] [0, 1]"] n a
  show ?thesis
    by simp
qed

text \<open>
  The branch with scalars and arrays mixed does return: a scalar time and height with an
  array of two angles gives an array of two values.
\<close>

lemma make_ifn_mixed_example:
  "make_ifn zero_base [Scalar 1, Arr (NdArray [2] [5, 6]), Scalar 3]
     = Inr (Arr (NdArray [2] [0, 0]))"
  by (simp add: make_ifn_def zero_base_def np_ones_times_def broadcast_shapes_def
      broadcast_to_def ravel_index_def vector_interpolate_def interpolate_at_def
      np_getitem_def Let_def upt_rec)

subsection \<open>Volume-flaw evaluation of the semicircular-crack model\<close>

text \<open>
  C1. The volume-flaw evaluation \<^verbatim>\<open>calculate_volume_flaw_element_log_reliability\<close> of the
  semicircular-crack SMM model raises \<^verbatim>\<open>UnsupportedEvaluation\<close> for every input; it
  never returns a value.
\<close>

theorem semicircular_volume_flaw_unsupported:
  "calculate_volume_flaw_element_log_reliability volume_kernel SMMModelSemiCircularCrack args
     = Inl UnsupportedEvaluation
   \<and> (\<forall>v. calculate_volume_flaw_element_log_reliability volume_kernel
             SMMModelSemiCircularCrack args \<noteq> Inr v)"
  by (simp add: calculate_volume_flaw_element_log_reliability_def)

end
